theory Spec2Isabelle
  imports Complex_Main "HOL-Library.Multiset" "HOL-Library.Sublist"
begin

section \<open>JavaScript numbers and values\<close>

text \<open>
  The dashboard of \<^verbatim>\<open>src/App.js\<close> works on records decoded from JSON. Its arithmetic is
  JavaScript's: division never fails (it yields an infinity or NaN), a comparison with NaN is
  false, and a missing field reads as \<^verbatim>\<open>undefined\<close>, which converts to NaN.

  A number is an IEEE double: a rational (the double's exact value), one of the two zeros,
  an infinity or NaN. \<open>Fin 0\<close> is the positive zero, \<open>NZero\<close> the negative one. Division and
  multiplication round their exact result to the nearest double, ties to the even
  significand, with overflow to an infinity and underflow to a zero; a decimal literal of
  the source such as \<^verbatim>\<open>0.1\<close>, like a decimal number of the JSON input, is the double nearest
  to it, \<open>double_of (1 / 10)\<close>. Integers below \<open>2^53\<close> and \<open>1 / 2\<close> are doubles as they are.
\<close>

datatype jsnum = Fin rat | NZero | PInf | NInf | NaN

fun rat_of :: "jsnum \<Rightarrow> rat" where
  "rat_of (Fin q) = q"
| "rat_of NZero = 0"
| "rat_of PInf = 0"
| "rat_of NInf = 0"
| "rat_of NaN = 0"

fun sign_bit :: "jsnum \<Rightarrow> bool" where
  "sign_bit (Fin q) = (q < 0)"
| "sign_bit NZero = True"
| "sign_bit PInf = False"
| "sign_bit NInf = True"
| "sign_bit NaN = False"

definition is_zero :: "jsnum \<Rightarrow> bool" where
  "is_zero x = (x = Fin 0 \<or> x = NZero)"

definition is_inf :: "jsnum \<Rightarrow> bool" where
  "is_inf x = (x = PInf \<or> x = NInf)"

definition signed_zero :: "bool \<Rightarrow> jsnum" where
  "signed_zero negative = (if negative then NZero else Fin 0)"

definition signed_inf :: "bool \<Rightarrow> jsnum" where
  "signed_inf negative = (if negative then NInf else PInf)"

subsection \<open>Rounding to a double\<close>

text \<open>
  The finite doubles are the numbers \<open>m * 2^e\<close> with \<open>\<bar>m\<bar> < 2^53\<close> and
  \<open>- 1074 \<le> e \<le> 971\<close>. To round a positive \<open>a\<close>, take the exponent \<open>e\<close> with
  \<open>2^52 \<le> a / 2^e < 2^53\<close>, but not below \<open>- 1074\<close> (the subnormal range), and round
  \<open>a / 2^e\<close> to the nearest integer \<open>m\<close>, a tie to the even one. The result \<open>m * 2^e\<close> is
  infinite when it reaches \<open>2^1024\<close> and a zero when \<open>m = 0\<close>.
\<close>

definition pow2 :: "int \<Rightarrow> rat" where
  "pow2 e = (if 0 \<le> e then 2 ^ nat e else 1 / 2 ^ nat (- e))"

text \<open>The number of binary digits of a positive integer.\<close>

function bitlen :: "int \<Rightarrow> int" where
  "bitlen n = (if n \<le> 0 then 0 else bitlen (n div 2) + 1)"
  by pat_completeness auto
termination
  by (relation "measure nat") auto

declare bitlen.simps [simp del]

text \<open>For \<open>q > 0\<close>, the integer \<open>l\<close> with \<open>2^l \<le> q < 2^(l + 1)\<close>.\<close>

definition floor_log2 :: "rat \<Rightarrow> int" where
  "floor_log2 q =
     (if 1 \<le> q then bitlen \<lfloor>q\<rfloor> - 1
      else (let l = bitlen \<lfloor>1 / q\<rfloor> - 1
            in if pow2 (- l) \<le> q then - l else - l - 1))"

definition round_even :: "rat \<Rightarrow> int" where
  "round_even x =
     (let f = \<lfloor>x\<rfloor>; d = x - of_int f
      in if d < 1 / 2 then f
         else if 1 / 2 < d then f + 1
         else if even f then f else f + 1)"

definition double_of :: "rat \<Rightarrow> jsnum" where
  "double_of q =
     (if q = 0 then Fin 0
      else (let a = \<bar>q\<bar>;
                e = max (floor_log2 a - 52) (- 1074);
                m = round_even (a / pow2 e);
                v = of_int m * pow2 e
            in if 971 < e \<or> (e = 971 \<and> 2 ^ 53 \<le> m) then signed_inf (q < 0)
               else if m = 0 then signed_zero (q < 0)
               else Fin (if q < 0 then - v else v)))"

subsection \<open>Arithmetic and comparison\<close>

text \<open>Number::divide: the sign of the quotient is the exclusive or of the operands' signs.\<close>

definition js_div :: "jsnum \<Rightarrow> jsnum \<Rightarrow> jsnum" where
  "js_div x y =
     (if x = NaN \<or> y = NaN then NaN
      else if is_inf x then (if is_inf y then NaN else signed_inf (sign_bit x \<noteq> sign_bit y))
      else if is_inf y then signed_zero (sign_bit x \<noteq> sign_bit y)
      else if is_zero y then
        (if is_zero x then NaN else signed_inf (sign_bit x \<noteq> sign_bit y))
      else if is_zero x then signed_zero (sign_bit x \<noteq> sign_bit y)
      else double_of (rat_of x / rat_of y))"

text \<open>Number::multiply.\<close>

definition js_mul :: "jsnum \<Rightarrow> jsnum \<Rightarrow> jsnum" where
  "js_mul x y =
     (if x = NaN \<or> y = NaN then NaN
      else if is_inf x then (if is_zero y then NaN else signed_inf (sign_bit x \<noteq> sign_bit y))
      else if is_inf y then (if is_zero x then NaN else signed_inf (sign_bit x \<noteq> sign_bit y))
      else if is_zero x \<or> is_zero y then signed_zero (sign_bit x \<noteq> sign_bit y)
      else double_of (rat_of x * rat_of y))"

text \<open>
  Number::subtract: equal infinities cancel to NaN; a zero difference is the positive zero,
  except for \<open>(-0) - (+0)\<close>. The source subtracts only in the comparator of its sort,
  which is read for its sign. A non-zero difference of two doubles is a multiple of
  \<open>2^(- 1074)\<close>, so rounding neither changes its sign nor makes it zero (a difference that
  overflows becomes the infinity of its sign), and the difference is kept as it is.
\<close>

definition js_sub :: "jsnum \<Rightarrow> jsnum \<Rightarrow> jsnum" where
  "js_sub x y =
     (if x = NaN \<or> y = NaN then NaN
      else if is_inf x then (if x = y then NaN else x)
      else if y = PInf then NInf
      else if y = NInf then PInf
      else if x = NZero \<and> y = Fin 0 then NZero
      else Fin (rat_of x - rat_of y))"

text \<open>
  The relational operators on numbers: \<open>x < y\<close> is false when either side is NaN, the two
  zeros compare equal, and \<open>x > y\<close> is \<open>y < x\<close>.
\<close>

definition js_lt :: "jsnum \<Rightarrow> jsnum \<Rightarrow> bool" where
  "js_lt x y =
     (if x = NaN \<or> y = NaN then False
      else if x = PInf \<or> y = NInf then False
      else if x = NInf \<or> y = PInf then True
      else rat_of x < rat_of y)"

definition js_gt :: "jsnum \<Rightarrow> jsnum \<Rightarrow> bool" where
  "js_gt x y = js_lt y x"

text \<open>
  The value of a numeric field of a decoded record: a number, \<^verbatim>\<open>null\<close>, a boolean, or
  \<^verbatim>\<open>undefined\<close> when the key is missing. Strings, arrays and objects in a numeric field are
  outside the model (their conversion to a number is a parser); display fields are strings.
\<close>

datatype jsval = Undefined | Null | Bool bool | Num jsnum

fun ToNumber :: "jsval \<Rightarrow> jsnum" where
  "ToNumber Undefined = NaN"
| "ToNumber Null = Fin 0"
| "ToNumber (Bool b) = (if b then Fin 1 else Fin 0)"
| "ToNumber (Num n) = n"

fun ToBoolean :: "jsval \<Rightarrow> bool" where
  "ToBoolean Undefined = False"
| "ToBoolean Null = False"
| "ToBoolean (Bool b) = b"
| "ToBoolean (Num n) = (\<not> is_zero n \<and> n \<noteq> NaN)"

text \<open>The arithmetic and relational operators on values convert both operands to numbers.\<close>

definition divide_v :: "jsval \<Rightarrow> jsval \<Rightarrow> jsnum" where
  "divide_v a b = js_div (ToNumber a) (ToNumber b)"

definition subtract_v :: "jsval \<Rightarrow> jsval \<Rightarrow> jsnum" where
  "subtract_v a b = js_sub (ToNumber a) (ToNumber b)"

definition greater_v :: "jsval \<Rightarrow> jsval \<Rightarrow> bool" where
  "greater_v a b = js_gt (ToNumber a) (ToNumber b)"

section \<open>The record model\<close>

text \<open>
  One entry of the market list, with the fields the pipeline reads. The source's
  \<^verbatim>\<open>id\<close> is \<open>coin_id\<close> here.
\<close>

record crypto =
  coin_id :: string
  name :: string
  symbol :: string
  market_cap :: jsval
  total_volume :: jsval
  price_change_percentage_24h :: jsval
  total_supply :: jsval
  circulating_supply :: jsval

text \<open>The object \<^verbatim>\<open>{ value: 0, factors: [] }\<close> that \<^verbatim>\<open>analyzePotential\<close> builds and returns.\<close>

record score =
  "value" :: int
  factors :: "string list"

section \<open>The candidate filter\<close>

text \<open>
  The predicate passed to \<^verbatim>\<open>data.filter\<close> in \<^verbatim>\<open>fetchCryptoData\<close> (lines 30--37):
  \<^verbatim>\<open>
  const marketCapInMillions = crypto.market_cap / 1000000;
  const volumeToMarketCap = crypto.total_volume / crypto.market_cap;
  return marketCapInMillions < 100 && volumeToMarketCap > 0.1 && crypto.market_cap > 0;
  \<close>
\<close>

definition isPotentialGem :: "crypto \<Rightarrow> bool" where
  "isPotentialGem crypto =
     (let marketCapInMillions = divide_v (market_cap crypto) (Num (Fin 1000000));
          volumeToMarketCap = divide_v (total_volume crypto) (market_cap crypto)
      in js_lt marketCapInMillions (Fin 100) \<and>
         js_gt volumeToMarketCap (double_of (1 / 10)) \<and>
         greater_v (market_cap crypto) (Num (Fin 0)))"

text \<open>\<^verbatim>\<open>Array.prototype.filter\<close> keeps, in order, the elements whose predicate is true.\<close>

definition potentialGems :: "crypto list \<Rightarrow> crypto list" where
  "potentialGems data = filter isPotentialGem data"

section \<open>The potential scorer\<close>

text \<open>\<^verbatim>\<open>score.value += points; score.factors.push(text)\<close>\<close>

definition add_factor :: "int \<Rightarrow> string \<Rightarrow> score \<Rightarrow> score" where
  "add_factor points text s = s\<lparr>value := value s + points, factors := factors s @ [text]\<rparr>"

text \<open>Lines 53--60: the market-cap group.\<close>

definition marketCapGroup :: "crypto \<Rightarrow> score \<Rightarrow> score" where
  "marketCapGroup crypto s =
     (let marketCapInMillions = divide_v (market_cap crypto) (Num (Fin 1000000))
      in if js_lt marketCapInMillions (Fin 10)
         then add_factor 4 ''Micro market cap with massive growth potential'' s
         else if js_lt marketCapInMillions (Fin 50)
         then add_factor 3 ''Very low market cap with high growth potential'' s
         else s)"

text \<open>Lines 62--69: the volume-to-market-cap group.\<close>

definition volumeGroup :: "crypto \<Rightarrow> score \<Rightarrow> score" where
  "volumeGroup crypto s =
     (let volumeToMarketCap = divide_v (total_volume crypto) (market_cap crypto)
      in if js_gt volumeToMarketCap (Fin (1 / 2))
         then add_factor 4 ''Exceptional trading volume relative to market cap'' s
         else if js_gt volumeToMarketCap (double_of (3 / 10))
         then add_factor 3 ''Very high trading volume relative to market cap'' s
         else s)"

text \<open>Lines 71--77: the price-momentum group.\<close>

definition priceChangeGroup :: "crypto \<Rightarrow> score \<Rightarrow> score" where
  "priceChangeGroup crypto s =
     (if greater_v (price_change_percentage_24h crypto) (Num (Fin 15))
      then add_factor 4 ''Strong positive price momentum (>15%)'' s
      else if greater_v (price_change_percentage_24h crypto) (Num (Fin 8))
      then add_factor 2 ''Good positive price momentum (>8%)'' s
      else s)"

text \<open>
  Lines 79--88: the supply-ratio group, behind the guard
  \<^verbatim>\<open>if (crypto.total_supply && crypto.circulating_supply)\<close>.
\<close>

definition supplyRatioGroup :: "crypto \<Rightarrow> score \<Rightarrow> score" where
  "supplyRatioGroup crypto s =
     (if ToBoolean (total_supply crypto) \<and> ToBoolean (circulating_supply crypto)
      then (let supplyRatio = divide_v (circulating_supply crypto) (total_supply crypto)
            in if js_lt supplyRatio (double_of (3 / 10))
               then add_factor 3 ''Very large room for supply growth'' s
               else if js_lt supplyRatio (Fin (1 / 2))
               then add_factor 2 ''Significant room for supply growth'' s
               else s)
      else s)"

text \<open>Lines 90--93: the bonus rule.\<close>

definition bonusRule :: "crypto \<Rightarrow> score \<Rightarrow> score" where
  "bonusRule crypto s =
     (if greater_v (total_volume crypto) (market_cap crypto)
      then add_factor 2 ''Extremely high trading activity'' s
      else s)"

text \<open>
  \<^verbatim>\<open>analyzePotential\<close> (lines 47--96) starts from a fresh score object and runs the five
  blocks in order, each updating the object.
\<close>

definition analyzePotential :: "crypto \<Rightarrow> score" where
  "analyzePotential crypto =
     (let s0 = \<lparr>value = 0, factors = []\<rparr>;
          s1 = marketCapGroup crypto s0;
          s2 = volumeGroup crypto s1;
          s3 = priceChangeGroup crypto s2;
          s4 = supplyRatioGroup crypto s3;
          s5 = bonusRule crypto s4
      in s5)"

section \<open>The ranker\<close>

text \<open>
  \<^verbatim>\<open>sortField\<close> and \<^verbatim>\<open>sortDirection\<close> are component state read by \<^verbatim>\<open>sortData\<close>; they are
  arguments here, which \<open>sortData_in\<close> below takes from the state.
  The sort field is \<^verbatim>\<open>'potentialScore'\<close> or the name of a numeric field of the
  record; \<open>get_field\<close> is the property read \<^verbatim>\<open>a[sortField]\<close>. Any direction other than
  \<^verbatim>\<open>'desc'\<close> sorts ascending.
\<close>

datatype field =
  PotentialScore | MarketCap | TotalVolume | PriceChangePercentage24h | TotalSupply
  | CirculatingSupply

fun get_field :: "crypto \<Rightarrow> field \<Rightarrow> jsval" where
  "get_field a PotentialScore = Undefined"
| "get_field a MarketCap = market_cap a"
| "get_field a TotalVolume = total_volume a"
| "get_field a PriceChangePercentage24h = price_change_percentage_24h a"
| "get_field a TotalSupply = total_supply a"
| "get_field a CirculatingSupply = circulating_supply a"

text \<open>The comparator of lines 110--119.\<close>

definition compareFn :: "field \<Rightarrow> string \<Rightarrow> crypto \<Rightarrow> crypto \<Rightarrow> jsnum" where
  "compareFn sortField sortDirection a b =
     (if sortField = PotentialScore
      then (let scoreA = value (analyzePotential a);
                scoreB = value (analyzePotential b)
            in if sortDirection = ''desc'' then Fin (of_int (scoreB - scoreA))
               else Fin (of_int (scoreA - scoreB)))
      else (let aValue = get_field a sortField;
                bValue = get_field b sortField
            in if sortDirection = ''desc'' then subtract_v bValue aValue
               else subtract_v aValue bValue))"

text \<open>
  \<^verbatim>\<open>Array.prototype.sort(comparefn)\<close>. SortCompare reads a NaN from the comparator as \<open>+0\<close>.
  ECMAScript requires the sort to be stable, so for a consistent comparator its result is
  fixed: the elements in comparator order, equal ones in their input order. It is computed
  here by inserting from the right, each element in front of the first one it is not greater
  than. (For an inconsistent comparator the language leaves the order to the implementation.)
\<close>

definition SortCompare :: "('a \<Rightarrow> 'a \<Rightarrow> jsnum) \<Rightarrow> 'a \<Rightarrow> 'a \<Rightarrow> jsnum" where
  "SortCompare comparefn x y = (let v = comparefn x y in if v = NaN then Fin 0 else v)"

fun insert_sorted :: "('a \<Rightarrow> 'a \<Rightarrow> jsnum) \<Rightarrow> 'a \<Rightarrow> 'a list \<Rightarrow> 'a list" where
  "insert_sorted comparefn x [] = [x]"
| "insert_sorted comparefn x (y # ys) =
     (if js_gt (SortCompare comparefn x y) (Fin 0) then y # insert_sorted comparefn x ys
      else x # y # ys)"

definition array_sort :: "('a \<Rightarrow> 'a \<Rightarrow> jsnum) \<Rightarrow> 'a list \<Rightarrow> 'a list" where
  "array_sort comparefn xs = foldr (insert_sorted comparefn) xs []"

text \<open>The value \<^verbatim>\<open>sortData(data)\<close> returns: the elements of \<^verbatim>\<open>[...data].sort(...)\<close>.\<close>

definition sortData :: "field \<Rightarrow> string \<Rightarrow> crypto list \<Rightarrow> crypto list" where
  "sortData sortField sortDirection data = array_sort (compareFn sortField sortDirection) data"

subsection \<open>Arrays in a store\<close>

text \<open>
  Arrays are mutable objects: \<^verbatim>\<open>sort\<close> reorders its receiver in place and returns it, while
  the spread \<^verbatim>\<open>[...data]\<close> and \<^verbatim>\<open>filter\<close> allocate a new array. The store is the list of all
  arrays allocated so far, a reference is an index into it. No function of the pipeline
  writes to a record, so an array is the list of its records.
\<close>

type_synonym store = "crypto list list"

definition spread :: "store \<Rightarrow> nat \<Rightarrow> store \<times> nat" where
  "spread h a = (h @ [h ! a], length h)"

definition sort_in_place :: "(crypto \<Rightarrow> crypto \<Rightarrow> jsnum) \<Rightarrow> store \<Rightarrow> nat \<Rightarrow> store \<times> nat" where
  "sort_in_place comparefn h a = (h[a := array_sort comparefn (h ! a)], a)"

definition filter_new :: "(crypto \<Rightarrow> bool) \<Rightarrow> store \<Rightarrow> nat \<Rightarrow> store \<times> nat" where
  "filter_new p h a = (h @ [filter p (h ! a)], length h)"

text \<open>\<^verbatim>\<open>[...data].sort((a, b) => ...)\<close> on the store.\<close>

definition sortData_store :: "field \<Rightarrow> string \<Rightarrow> store \<Rightarrow> nat \<Rightarrow> store \<times> nat" where
  "sortData_store sortField sortDirection h data =
     (let (h1, copy) = spread h data
      in sort_in_place (compareFn sortField sortDirection) h1 copy)"

text \<open>\<^verbatim>\<open>data.filter(crypto => ...)\<close> on the store.\<close>

definition potentialGems_store :: "store \<Rightarrow> nat \<Rightarrow> store \<times> nat" where
  "potentialGems_store h data = filter_new isPotentialGem h data"

section \<open>The narrative generator\<close>

text \<open>
  The method \<^verbatim>\<open>toFixed\<close> of numbers is passed to the generator, as \<open>toFixed digits x\<close>; the
  built-in one is \<open>Number_toFixed\<close> below. A call \<^verbatim>\<open>v.toFixed(d)\<close> on a value that is not a
  number raises a TypeError (a boolean has no such method, \<^verbatim>\<open>null\<close> and \<^verbatim>\<open>undefined\<close> no
  properties).
\<close>

datatype error = TypeError

fun call_toFixed :: "(nat \<Rightarrow> jsnum \<Rightarrow> string) \<Rightarrow> jsval \<Rightarrow> nat \<Rightarrow> error + string" where
  "call_toFixed toFixed (Num n) d = Inr (toFixed d n)"
| "call_toFixed toFixed Undefined d = Inl TypeError"
| "call_toFixed toFixed Null d = Inl TypeError"
| "call_toFixed toFixed (Bool b) d = Inl TypeError"

text \<open>
  \<^verbatim>\<open>generateAnalysis\<close> (lines 98--107): a template of four parts, evaluated left to right.
  Only the third part can raise.
\<close>

definition generateAnalysis :: "(nat \<Rightarrow> jsnum \<Rightarrow> string) \<Rightarrow> crypto \<Rightarrow> error + string" where
  "generateAnalysis toFixed crypto =
     (let marketCapInMillions = divide_v (market_cap crypto) (Num (Fin 1000000));
          volumeToMarketCap = divide_v (total_volume crypto) (market_cap crypto);
          supplyRatio =
            (if ToBoolean (total_supply crypto)
             then Num (js_mul (divide_v (circulating_supply crypto) (total_supply crypto))
                         (Fin 100))
             else Null);
          part1 = name crypto @ '' shows promise with a market cap of only $'' @
                  toFixed 2 marketCapInMillions @ ''M. '';
          part2 = (if js_gt volumeToMarketCap (double_of (3 / 10))
                   then ''It has strong trading volume at '' @
                        toFixed 1 (js_mul volumeToMarketCap (Fin 100)) @
                        ''% of its market cap. ''
                   else []);
          part3 = (if greater_v (price_change_percentage_24h crypto) (Num (Fin 0))
                   then (case call_toFixed toFixed (price_change_percentage_24h crypto) 1 of
                           Inl e \<Rightarrow> Inl e
                         | Inr t \<Rightarrow> Inr (''Price is up '' @ t @ ''% in the last 24h. ''))
                   else Inr []);
          part4 = (if ToBoolean supplyRatio
                   then ''Only '' @ toFixed 1 (ToNumber supplyRatio) @
                        ''% of total supply is in circulation. ''
                   else [])
      in case part3 of
           Inl e \<Rightarrow> Inl e
         | Inr p3 \<Rightarrow> Inr (part1 @ part2 @ p3 @ part4))"

subsection \<open>Number.prototype.toFixed\<close>

text \<open>
  The method as ECMAScript defines it, for use as \<open>toFixed\<close> above. Below \<open>10^21\<close> it prints
  the integer nearest to \<open>x * 10^digits\<close> (the larger one on a tie) with \<open>digits\<close> decimals;
  from \<open>10^21\<close> on it prints as \<^verbatim>\<open>String(x)\<close> does: the shortest decimal that rounds to the
  double (of several, the nearest; of two equally near, the even one) in exponent notation.
\<close>

function decimal :: "int \<Rightarrow> string" where
  "decimal n = (if n < 10 then [''0123456789'' ! nat n]
                else decimal (n div 10) @ [''0123456789'' ! nat (n mod 10)])"
  by pat_completeness auto
termination
  by (relation "measure nat") auto

declare decimal.simps [simp del]

text \<open>The integer of \<open>k\<close> significant digits that rounds to the double \<open>x\<close>, if there is one.\<close>

definition round_trip :: "rat \<Rightarrow> nat \<Rightarrow> int option" where
  "round_trip x k =
     (let n = length (decimal \<lfloor>x\<rfloor>);
          u = 10 ^ (n - k);
          lo = \<lfloor>x / of_int u\<rfloor> * u;
          hi = lo + u;
          ok_lo = (double_of (of_int lo) = Fin x);
          ok_hi = (double_of (of_int hi) = Fin x)
      in if ok_lo \<and> ok_hi
         then (if x - of_int lo < of_int hi - x then Some lo
               else if of_int hi - x < x - of_int lo then Some hi
               else if even (lo div u) then Some lo else Some hi)
         else if ok_lo then Some lo
         else if ok_hi then Some hi
         else None)"

fun shortest :: "rat \<Rightarrow> nat list \<Rightarrow> int" where
  "shortest x [] = \<lfloor>x\<rfloor>"
| "shortest x (k # ks) = (case round_trip x k of Some c \<Rightarrow> c | None \<Rightarrow> shortest x ks)"

definition exponent_form :: "int \<Rightarrow> string" where
  "exponent_form c =
     (let ds = decimal c;
          significant = rev (dropWhile (\<lambda>d. d = CHR ''0'') (rev ds))
      in (case significant of
            [] \<Rightarrow> ''0''
          | [d] \<Rightarrow> [d]
          | d # rest \<Rightarrow> d # ''.'' @ rest) @ ''e+'' @ decimal (int (length ds) - 1))"

definition Number_toFixed :: "nat \<Rightarrow> jsnum \<Rightarrow> string" where
  "Number_toFixed digits x =
     (if x = NaN then ''NaN''
      else if x = PInf then ''Infinity''
      else if x = NInf then ''-Infinity''
      else (let q = rat_of x;
                a = \<bar>q\<bar>;
                m = (if 10 ^ 21 \<le> a then exponent_form (shortest a [1..<18])
                     else (let n = \<lfloor>a * 10 ^ digits + 1 / 2\<rfloor>;
                               m0 = decimal n;
                               m1 = replicate (Suc digits - length m0) CHR ''0'' @ m0;
                               k = length m1 - digits
                           in take k m1 @ (if digits = 0 then [] else ''.'' @ drop k m1)))
            in (if q < 0 then ''-'' else []) @ m))"

section \<open>The component's state\<close>

text \<open>
  \<^verbatim>\<open>sortData\<close> is a closure of the component \<^verbatim>\<open>App\<close> and reads \<^verbatim>\<open>sortField\<close> and
  \<^verbatim>\<open>sortDirection\<close> from its state (lines 5--9). The state starts as the \<^verbatim>\<open>useState\<close> calls
  say. Its only writers are in \<^verbatim>\<open>fetchCryptoData\<close> (lines 22--45): a successful fetch stores
  the filtered list and ends loading, a failed one stores the message and ends loading. The
  setters of the two sort variables are never called.
\<close>

record component =
  cryptoData :: "crypto list"
  loading :: bool
  fetch_error :: "string option"
  state_sortField :: field
  state_sortDirection :: string

definition initial :: component where
  "initial =
     \<lparr>cryptoData = [], loading = True, fetch_error = None,
      state_sortField = PotentialScore, state_sortDirection = ''desc''\<rparr>"

inductive fetch_step :: "component \<Rightarrow> component \<Rightarrow> bool" where
  fetched: "fetch_step st (st\<lparr>cryptoData := potentialGems data, loading := False\<rparr>)"
| failed: "fetch_step st (st\<lparr>fetch_error := Some message, loading := False\<rparr>)"

inductive reachable :: "component \<Rightarrow> bool" where
  start: "reachable initial"
| step: "reachable st \<Longrightarrow> fetch_step st st' \<Longrightarrow> reachable st'"

text \<open>\<^verbatim>\<open>sortData(data)\<close> as the component calls it in state \<open>st\<close>, on the store.\<close>

definition sortData_in :: "component \<Rightarrow> store \<Rightarrow> nat \<Rightarrow> store \<times> nat" where
  "sortData_in st h data = sortData_store (state_sortField st) (state_sortDirection st) h data"

section \<open>The specification's reading of the pipeline\<close>

text \<open>
  The definitions of this section follow the words of the specification, for comparison with
  the functions above; where the source guards a rule differently, its guard is stated in
  the same form beside the specification's. The derived metrics first.
\<close>

definition millions :: "crypto \<Rightarrow> jsnum" where
  "millions r = divide_v (market_cap r) (Num (Fin 1000000))"

definition volume_ratio :: "crypto \<Rightarrow> jsnum" where
  "volume_ratio r = divide_v (total_volume r) (market_cap r)"

definition supply_ratio :: "crypto \<Rightarrow> jsnum" where
  "supply_ratio r = divide_v (circulating_supply r) (total_supply r)"

text \<open>The three inclusion conditions of the candidate filter, in the specification's order.\<close>

definition inclusion_conditions :: "crypto \<Rightarrow> bool" where
  "inclusion_conditions r =
     (greater_v (market_cap r) (Num (Fin 0)) \<and>
      js_lt (millions r) (Fin 100) \<and>
      js_gt (volume_ratio r) (double_of (1 / 10)))"

text \<open>
  An optional field is present when it is neither missing nor \<^verbatim>\<open>null\<close>. The specification
  counts a zero denominator as absence of the supply ratio.
\<close>

definition present :: "jsval \<Rightarrow> bool" where
  "present v = (v \<noteq> Undefined \<and> v \<noteq> Null)"

definition supply_present :: "crypto \<Rightarrow> bool" where
  "supply_present r =
     (present (total_supply r) \<and> present (circulating_supply r) \<and>
      \<not> is_zero (ToNumber (total_supply r)))"

text \<open>The guard the source puts on the supply group: both fields are truthy.\<close>

definition supply_truthy :: "crypto \<Rightarrow> bool" where
  "supply_truthy r = (ToBoolean (total_supply r) \<and> ToBoolean (circulating_supply r))"

text \<open>
  The rule table: a list of groups, each a list of tiers (condition, points, factor text)
  tried in order. The table is given for any condition under which the supply group applies.
\<close>

type_synonym tier = "(crypto \<Rightarrow> bool) \<times> int \<times> string"

fun first_match :: "tier list \<Rightarrow> crypto \<Rightarrow> (int \<times> string) option" where
  "first_match [] r = None"
| "first_match ((condition, points, text) # tiers) r =
     (if condition r then Some (points, text) else first_match tiers r)"

definition rule_table :: "(crypto \<Rightarrow> bool) \<Rightarrow> tier list list" where
  "rule_table supply_applies =
     [[(\<lambda>r. js_lt (millions r) (Fin 10), 4,
          ''Micro market cap with massive growth potential''),
       (\<lambda>r. js_lt (millions r) (Fin 50), 3,
          ''Very low market cap with high growth potential'')],
      [(\<lambda>r. js_gt (volume_ratio r) (Fin (1 / 2)), 4,
          ''Exceptional trading volume relative to market cap''),
       (\<lambda>r. js_gt (volume_ratio r) (double_of (3 / 10)), 3,
          ''Very high trading volume relative to market cap'')],
      [(\<lambda>r. greater_v (price_change_percentage_24h r) (Num (Fin 15)), 4,
          ''Strong positive price momentum (>15%)''),
       (\<lambda>r. greater_v (price_change_percentage_24h r) (Num (Fin 8)), 2,
          ''Good positive price momentum (>8%)'')],
      [(\<lambda>r. supply_applies r \<and> js_lt (supply_ratio r) (double_of (3 / 10)), 3,
          ''Very large room for supply growth''),
       (\<lambda>r. supply_applies r \<and> js_lt (supply_ratio r) (Fin (1 / 2)), 2,
          ''Significant room for supply growth'')],
      [(\<lambda>r. greater_v (total_volume r) (market_cap r), 2,
          ''Extremely high trading activity'')]]"

text \<open>
  The score a table gives: every group contributes its first matching tier, the value is the
  sum of the contributions' points and the factors are their texts, in table order.
\<close>

definition contributions :: "tier list list \<Rightarrow> crypto \<Rightarrow> (int \<times> string) list" where
  "contributions table r = concat (map (\<lambda>g. case first_match g r of None \<Rightarrow> [] | Some c \<Rightarrow> [c]) table)"

definition score_by_table :: "tier list list \<Rightarrow> crypto \<Rightarrow> score" where
  "score_by_table table r =
     \<lparr>value = sum_list (map fst (contributions table r)),
      factors = map snd (contributions table r)\<rparr>"

text \<open>
  Which of the five rule groups are triggered, and how many: a group is triggered when one
  of its tiers' conditions holds. As the table, this is given for any condition under which
  the supply group applies: \<open>supply_present\<close> is the specification's, \<open>supply_truthy\<close> the
  source's.
\<close>

definition triggered :: "(crypto \<Rightarrow> bool) \<Rightarrow> crypto \<Rightarrow> bool list" where
  "triggered supply_applies r =
     [js_lt (millions r) (Fin 10) \<or> js_lt (millions r) (Fin 50),
      js_gt (volume_ratio r) (Fin (1 / 2)) \<or> js_gt (volume_ratio r) (double_of (3 / 10)),
      greater_v (price_change_percentage_24h r) (Num (Fin 15)) \<or>
        greater_v (price_change_percentage_24h r) (Num (Fin 8)),
      supply_applies r \<and>
        (js_lt (supply_ratio r) (double_of (3 / 10)) \<or> js_lt (supply_ratio r) (Fin (1 / 2))),
      greater_v (total_volume r) (market_cap r)]"

definition triggered_count :: "(crypto \<Rightarrow> bool) \<Rightarrow> crypto \<Rightarrow> nat" where
  "triggered_count supply_applies r = length (filter (\<lambda>b. b) (triggered supply_applies r))"

text \<open>A value that is a zero or \<^verbatim>\<open>false\<close>: present, but read as false by a guard.\<close>

fun zero_or_false :: "jsval \<Rightarrow> bool" where
  "zero_or_false (Num n) = is_zero n"
| "zero_or_false (Bool b) = (\<not> b)"
| "zero_or_false Undefined = False"
| "zero_or_false Null = False"

text \<open>
  The supply group as the specification words it: it contributes exactly when both fields
  are present, the denominator is not zero and the ratio is below 0.5.
\<close>

definition supply_group_spec :: "crypto \<Rightarrow> score \<Rightarrow> score" where
  "supply_group_spec r s =
     (if supply_present r \<and> js_lt (supply_ratio r) (Fin (1 / 2))
      then (if js_lt (supply_ratio r) (double_of (3 / 10))
            then add_factor 3 ''Very large room for supply growth'' s
            else add_factor 2 ''Significant room for supply growth'' s)
      else s)"

text \<open>The same with the source's guard.\<close>

definition supply_group_truthy :: "crypto \<Rightarrow> score \<Rightarrow> score" where
  "supply_group_truthy r s =
     (if supply_truthy r \<and> js_lt (supply_ratio r) (Fin (1 / 2))
      then (if js_lt (supply_ratio r) (double_of (3 / 10))
            then add_factor 3 ''Very large room for supply growth'' s
            else add_factor 2 ''Significant room for supply growth'' s)
      else s)"

text \<open>A record with both supply fields removed.\<close>

definition without_supply :: "crypto \<Rightarrow> crypto" where
  "without_supply r = r\<lparr>total_supply := Undefined, circulating_supply := Undefined\<rparr>"

text \<open>
  How one group's first matching tier, if any, updates the score object; the groups of
  \<open>analyzePotential\<close> are instances of it.
\<close>

definition contribute :: "(int \<times> string) option \<Rightarrow> score \<Rightarrow> score" where
  "contribute c s = (case c of None \<Rightarrow> s | Some (points, text) \<Rightarrow> add_factor points text s)"

section \<open>Example records\<close>

text \<open>Scenario A of the specification: a micro cap with high turnover and a small float.\<close>

definition scenarioA :: crypto where
  "scenarioA =
     \<lparr>coin_id = ''gem'', name = ''Gem'', symbol = ''gem'',
      market_cap = Num (Fin 5000000), total_volume = Num (Fin 3000000),
      price_change_percentage_24h = Num (Fin 20),
      total_supply = Num (Fin 100), circulating_supply = Num (Fin 20)\<rparr>"

text \<open>Scenario B: a larger cap with thin volume and no supply data.\<close>

definition scenarioB :: crypto where
  "scenarioB =
     \<lparr>coin_id = ''big'', name = ''Big'', symbol = ''big'',
      market_cap = Num (Fin 80000000), total_volume = Num (Fin 2000000),
      price_change_percentage_24h = Num (Fin 5),
      total_supply = Undefined, circulating_supply = Undefined\<rparr>"

text \<open>A record on which every rule fires.\<close>

definition top_scorer :: crypto where
  "top_scorer = scenarioA\<lparr>coin_id := ''top'', total_volume := Num (Fin 6000000)\<rparr>"

text \<open>A token with a total supply of which nothing circulates yet.\<close>

definition unissued :: crypto where
  "unissued = scenarioA\<lparr>coin_id := ''new'', circulating_supply := Num (Fin 0)\<rparr>"

text \<open>Scenario C: a record with market cap 0. And one whose market cap is the boolean true.\<close>

definition scenarioC :: crypto where
  "scenarioC = scenarioA\<lparr>coin_id := ''nil'', market_cap := Num (Fin 0)\<rparr>"

definition mistyped :: crypto where
  "mistyped = scenarioA\<lparr>coin_id := ''odd'', market_cap := Bool True\<rparr>"

text \<open>Scenario D: a second record with the score of Scenario A.\<close>

definition twin :: crypto where
  "twin = scenarioA\<lparr>coin_id := ''twin'', name := ''Twin''\<rparr>"

text \<open>Three records of which the middle one has no \<^verbatim>\<open>total_supply\<close> key.\<close>

definition supply3 :: crypto where
  "supply3 = scenarioB\<lparr>coin_id := ''x'', total_supply := Num (Fin 3)\<rparr>"

definition supply_missing :: crypto where
  "supply_missing = scenarioB\<lparr>coin_id := ''y''\<rparr>"

definition supply1 :: crypto where
  "supply1 = scenarioB\<lparr>coin_id := ''z'', total_supply := Num (Fin 1)\<rparr>"

definition gappy :: "crypto list" where
  "gappy = [supply3, supply_missing, supply1]"

text \<open>
  Records with decimal inputs at the thresholds: a volume of 2.7 on a cap of 9, and of 0.9 on
  a cap of 3 (ratio against 0.3); a volume of 308566.28 on a cap of 3085662.8, and of 0.1 on
  a cap of 1 (ratio against 0.1); a circulating supply of 10527505.86 of 35091686.2.
\<close>

definition json_number :: "rat \<Rightarrow> jsval" where
  "json_number q = Num (double_of q)"

definition volume_27_of_9 :: crypto where
  "volume_27_of_9 =
     scenarioB\<lparr>coin_id := ''a'', market_cap := Num (Fin 9), total_volume := json_number (27 / 10)\<rparr>"

definition volume_09_of_3 :: crypto where
  "volume_09_of_3 =
     scenarioB\<lparr>coin_id := ''b'', market_cap := Num (Fin 3), total_volume := json_number (9 / 10)\<rparr>"

definition tenth_above :: crypto where
  "tenth_above =
     scenarioB\<lparr>coin_id := ''c'', market_cap := json_number (30856628 / 10),
       total_volume := json_number (30856628 / 100)\<rparr>"

definition tenth_exact :: crypto where
  "tenth_exact =
     scenarioB\<lparr>coin_id := ''d'', market_cap := Num (Fin 1), total_volume := json_number (1 / 10)\<rparr>"

definition supply_three_tenths :: crypto where
  "supply_three_tenths =
     scenarioB\<lparr>coin_id := ''e'', total_supply := json_number (350916862 / 10),
       circulating_supply := json_number (1052750586 / 100)\<rparr>"

text \<open>
  A record whose circulating supply is so small a share of the total that the quotient is
  below every positive double: \<open>2^(- 600)\<close> of \<open>2^600\<close>, both of them doubles.
\<close>

definition dust :: crypto where
  "dust =
     scenarioA\<lparr>coin_id := ''dust'', total_supply := Num (Fin (2 ^ 600)),
       circulating_supply := Num (Fin (1 / 2 ^ 600))\<rparr>"

section \<open>Notions of the properties below\<close>

text \<open>A value is numeric when it is of type number.\<close>

fun numeric :: "jsval \<Rightarrow> bool" where
  "numeric (Num n) = True"
| "numeric Undefined = False"
| "numeric Null = False"
| "numeric (Bool b) = False"

text \<open>
  The number a record is ranked by: its score, or the sort field's value as a number.
  \<open>out_of_order a b\<close> says that \<open>a\<close> must not stand before \<open>b\<close>: descending, when \<open>a\<close>'s
  number is smaller; ascending, when it is greater. Two records are tied when neither number
  is smaller than the other.
\<close>

definition rank_key :: "field \<Rightarrow> crypto \<Rightarrow> jsnum" where
  "rank_key sortField r =
     (if sortField = PotentialScore then Fin (of_int (value (analyzePotential r)))
      else ToNumber (get_field r sortField))"

definition out_of_order :: "field \<Rightarrow> string \<Rightarrow> crypto \<Rightarrow> crypto \<Rightarrow> bool" where
  "out_of_order sortField sortDirection a b =
     (if sortDirection = ''desc'' then js_lt (rank_key sortField a) (rank_key sortField b)
      else js_lt (rank_key sortField b) (rank_key sortField a))"

definition tied :: "field \<Rightarrow> crypto \<Rightarrow> crypto \<Rightarrow> bool" where
  "tied sortField r x =
     (\<not> js_lt (rank_key sortField r) (rank_key sortField x) \<and>
      \<not> js_lt (rank_key sortField x) (rank_key sortField r))"

text \<open>
  The narrative's four clauses, without the separating spaces, and the sentence from the
  clauses whose guards hold. The guard of the fourth clause is a parameter.
\<close>

definition clause1 :: "(nat \<Rightarrow> jsnum \<Rightarrow> string) \<Rightarrow> crypto \<Rightarrow> string" where
  "clause1 toFixed r =
     name r @ '' shows promise with a market cap of only $'' @ toFixed 2 (millions r) @ ''M.''"

definition clause2 :: "(nat \<Rightarrow> jsnum \<Rightarrow> string) \<Rightarrow> crypto \<Rightarrow> string" where
  "clause2 toFixed r =
     ''It has strong trading volume at '' @ toFixed 1 (js_mul (volume_ratio r) (Fin 100)) @
     ''% of its market cap.''"

definition clause3 :: "(nat \<Rightarrow> jsnum \<Rightarrow> string) \<Rightarrow> crypto \<Rightarrow> string" where
  "clause3 toFixed r =
     ''Price is up '' @ toFixed 1 (ToNumber (price_change_percentage_24h r)) @
     ''% in the last 24h.''"

definition clause4 :: "(nat \<Rightarrow> jsnum \<Rightarrow> string) \<Rightarrow> crypto \<Rightarrow> string" where
  "clause4 toFixed r =
     ''Only '' @ toFixed 1 (js_mul (supply_ratio r) (Fin 100)) @
     ''% of total supply is in circulation.''"

definition clauses :: "(crypto \<Rightarrow> bool) \<Rightarrow> (nat \<Rightarrow> jsnum \<Rightarrow> string) \<Rightarrow> crypto \<Rightarrow> string list" where
  "clauses supply_guard toFixed r =
     [clause1 toFixed r] @
     (if js_gt (volume_ratio r) (double_of (3 / 10)) then [clause2 toFixed r] else []) @
     (if greater_v (price_change_percentage_24h r) (Num (Fin 0)) then [clause3 toFixed r]
      else []) @
     (if supply_guard r then [clause4 toFixed r] else [])"

text \<open>The specification's guard of the fourth clause: both supply fields are present.\<close>

definition both_present :: "crypto \<Rightarrow> bool" where
  "both_present r = (present (total_supply r) \<and> present (circulating_supply r))"

text \<open>Concatenation with single spaces between the clauses.\<close>

fun join_spaces :: "string list \<Rightarrow> string" where
  "join_spaces [] = []"
| "join_spaces [c] = c"
| "join_spaces (c # d # cs) = c @ '' '' @ join_spaces (d # cs)"

definition narrate_spec :: "(nat \<Rightarrow> jsnum \<Rightarrow> string) \<Rightarrow> crypto \<Rightarrow> string" where
  "narrate_spec toFixed r = join_spaces (clauses both_present toFixed r)"

text \<open>
  The source's guard: \<^verbatim>\<open>total_supply\<close> is truthy and so is the percentage
  \<^verbatim>\<open>(circulating_supply / total_supply) * 100\<close>, that is, it is neither zero nor NaN.
\<close>

definition percentage_truthy :: "crypto \<Rightarrow> bool" where
  "percentage_truthy r =
     (ToBoolean (total_supply r) \<and> ToBoolean (Num (js_mul (supply_ratio r) (Fin 100))))"

section \<open>Properties of the arithmetic\<close>

lemma pow2_powi: "pow2 e = 2 powi e"
  by (simp add: pow2_def power_int_def inverse_eq_divide power_one_over)

lemma pow2_pos: "0 < pow2 e"
  by (simp add: pow2_powi)

lemma pow2_add: "pow2 (a + b) = pow2 a * pow2 b"
  by (simp add: pow2_powi power_int_add)

lemma pow2_52: "pow2 52 = 2 ^ 52"
  by (simp add: pow2_def)

lemma pow2_le_iff: "pow2 a \<le> pow2 b \<longleftrightarrow> a \<le> b"
proof
  show "a \<le> b" if "pow2 a \<le> pow2 b"
  proof (rule ccontr)
    assume "\<not> a \<le> b"
    then have "(2::rat) powi b < 2 powi a" by (intro power_int_strict_increasing) simp_all
    with that show False by (simp add: pow2_powi)
  qed
  show "pow2 a \<le> pow2 b" if "a \<le> b"
    using that unfolding pow2_powi by (intro power_int_increasing) simp_all
qed

lemma pow2_less_iff: "pow2 a < pow2 b \<longleftrightarrow> a < b"
  using pow2_le_iff [of b a] by (simp add: not_le [symmetric])

lemma pow2_Suc: "pow2 (a + 1) = 2 * pow2 a"
  using pow2_add [of a 1] by (simp add: pow2_def)

lemma pow2_minus: "pow2 (- a) = 1 / pow2 a"
  by (simp add: pow2_powi power_int_minus inverse_eq_divide)

lemma bitlen_lower: "0 < n \<Longrightarrow> pow2 (bitlen n - 1) \<le> of_int n"
proof (induction n rule: bitlen.induct)
  case (1 n)
  show ?case
  proof (cases "n = 1")
    case True
    then show ?thesis by (simp add: bitlen.simps [of 1] bitlen.simps [of 0] pow2_def)
  next
    case False
    with \<open>0 < n\<close> have h: "0 < n div 2" by simp
    with 1 have ih: "pow2 (bitlen (n div 2) - 1) \<le> of_int (n div 2)" by simp
    have "bitlen n = bitlen (n div 2) + 1" using \<open>0 < n\<close> by (simp add: bitlen.simps [of n])
    then have "pow2 (bitlen n - 1) = pow2 (bitlen (n div 2) - 1) * 2"
      using pow2_add [of "bitlen (n div 2) - 1" 1] by (simp add: pow2_def)
    also have "\<dots> \<le> of_int (n div 2) * 2" using ih by simp
    also have "\<dots> = of_int (2 * (n div 2))" by simp
    also have "\<dots> \<le> of_int n" unfolding of_int_le_iff by simp
    finally show ?thesis .
  qed
qed

lemma bitlen_nonneg: "0 \<le> bitlen n"
proof (induction n rule: bitlen.induct)
  case (1 n)
  then show ?case by (cases "n \<le> 0") (simp_all add: bitlen.simps [of n])
qed

lemma bitlen_pos: "0 < n \<Longrightarrow> 0 < bitlen n"
  using bitlen_nonneg [of "n div 2"] by (simp add: bitlen.simps [of n])

lemma bitlen_upper_int: "0 \<le> n \<Longrightarrow> n < 2 ^ nat (bitlen n)"
proof (induction n rule: bitlen.induct)
  case (1 n)
  show ?case
  proof (cases "n = 0")
    case True
    then show ?thesis by (simp add: bitlen.simps [of 0])
  next
    case False
    with \<open>0 \<le> n\<close> have pos: "0 < n" by simp
    then have ih: "n div 2 < 2 ^ nat (bitlen (n div 2))" using 1 by simp
    have b: "bitlen n = bitlen (n div 2) + 1" using pos by (simp add: bitlen.simps [of n])
    have "nat (bitlen n) = Suc (nat (bitlen (n div 2)))"
      using bitlen_nonneg [of "n div 2"] by (simp add: b nat_add_distrib)
    then have "(2::int) ^ nat (bitlen n) = 2 * 2 ^ nat (bitlen (n div 2))" by simp
    moreover have "n < 2 * (n div 2 + 1)" by presburger
    ultimately show ?thesis using ih by linarith
  qed
qed

lemma bitlen_upper: "0 \<le> n \<Longrightarrow> of_int n + 1 \<le> pow2 (bitlen n)"
proof -
  assume "0 \<le> n"
  then have "n + 1 \<le> 2 ^ nat (bitlen n)" using bitlen_upper_int [of n] by simp
  then have "(of_int (n + 1) :: rat) \<le> of_int (2 ^ nat (bitlen n))"
    by (simp only: of_int_le_iff)
  then show ?thesis using bitlen_nonneg [of n] by (simp add: pow2_def)
qed

text \<open>\<open>floor_log2\<close> is the binary exponent of a positive number.\<close>

lemma floor_log2_bounds:
  assumes "0 < q"
  shows "pow2 (floor_log2 q) \<le> q \<and> q < pow2 (floor_log2 q + 1)"
proof (cases "1 \<le> q")
  case True
  then have f: "0 < \<lfloor>q\<rfloor>" by simp
  have "pow2 (bitlen \<lfloor>q\<rfloor> - 1) \<le> of_int \<lfloor>q\<rfloor>" using bitlen_lower [OF f] .
  also have "\<dots> \<le> q" by simp
  finally have lower: "pow2 (bitlen \<lfloor>q\<rfloor> - 1) \<le> q" .
  have "q < of_int \<lfloor>q\<rfloor> + 1" by linarith
  also have "\<dots> \<le> pow2 (bitlen \<lfloor>q\<rfloor>)" using f by (intro bitlen_upper) simp
  finally show ?thesis using True lower by (simp add: floor_log2_def)
next
  case False
  define n where "n = \<lfloor>1 / q\<rfloor>"
  define l where "l = bitlen n - 1"
  from False assms have "1 \<le> 1 / q" by simp
  then have n: "0 < n" by (simp add: n_def)
  have "pow2 l \<le> of_int n" unfolding l_def using bitlen_lower [OF n] .
  also have "\<dots> \<le> 1 / q" by (simp add: n_def)
  finally have "pow2 l * q \<le> 1" using assms by (simp add: pos_le_divide_eq)
  then have up: "q \<le> pow2 (- l)"
    using pow2_pos [of l] by (simp add: pow2_minus pos_le_divide_eq mult.commute)
  have "1 / q < of_int n + 1" unfolding n_def by linarith
  also have "\<dots> \<le> pow2 (l + 1)" unfolding l_def using n bitlen_upper [of n] by simp
  finally have "1 < pow2 (l + 1) * q" using assms by (simp add: pos_divide_less_eq)
  then have low: "pow2 (- l - 1) < q"
    using pow2_pos [of "l + 1"] pow2_minus [of "l + 1"]
    by (simp add: pos_divide_less_eq mult.commute)
  have fl: "floor_log2 q = (if pow2 (- l) \<le> q then - l else - l - 1)"
    using False by (simp add: floor_log2_def n_def l_def Let_def)
  show ?thesis
  proof (cases "pow2 (- l) \<le> q")
    case True
    moreover have "pow2 (- l + 1) = 2 * pow2 (- l)" by (rule pow2_Suc)
    with up pow2_pos [of "- l"] have "q < pow2 (- l + 1)" by linarith
    ultimately show ?thesis by (simp add: fl)
  next
    case False
    with low show ?thesis by (simp add: fl)
  qed
qed

lemma floor_log2_lower:
  assumes "1 \<le> q"
  shows "0 \<le> floor_log2 q \<and> pow2 (floor_log2 q) \<le> q"
proof -
  from assms have f: "0 < \<lfloor>q\<rfloor>" by simp
  from assms floor_log2_bounds [of q] have "pow2 (floor_log2 q) \<le> q" by simp
  then show ?thesis using assms bitlen_pos [OF f] by (simp add: floor_log2_def)
qed

lemma round_even_floor: "\<lfloor>x\<rfloor> \<le> round_even x"
  by (simp add: round_even_def Let_def)

lemma double_of_pos:
  assumes "0 < q"
  shows "double_of q = PInf \<or>
    (round_even (q / pow2 (max (floor_log2 q - 52) (- 1074))) = 0 \<and> double_of q = Fin 0) \<or>
    double_of q =
      Fin (of_int (round_even (q / pow2 (max (floor_log2 q - 52) (- 1074)))) *
           pow2 (max (floor_log2 q - 52) (- 1074)))"
  using assms
  by (auto simp add: double_of_def Let_def signed_inf_def signed_zero_def simp del: power_numeral)

text \<open>
  Rounding does not take a number below a power of two that it is not below, down to the
  smallest normal number \<open>2^(- 1022)\<close>.
\<close>

lemma double_of_lower:
  assumes "pow2 k \<le> q" and "- 1022 \<le> k"
  shows "double_of q = PInf \<or> (\<exists>v. double_of q = Fin v \<and> pow2 k \<le> v)"
proof -
  let ?l = "floor_log2 q"
  define c :: int where "c = 2 ^ 52"
  define x where "x = q / pow2 (?l - 52)"
  define m where "m = round_even x"
  from assms(1) pow2_pos [of k] have pos: "0 < q" by simp
  from floor_log2_bounds [OF pos] have l: "pow2 ?l \<le> q" "q < pow2 (?l + 1)" by simp_all
  from assms(1) l(2) have "pow2 k < pow2 (?l + 1)" by simp
  then have kl: "k \<le> ?l" by (simp add: pow2_less_iff)
  have e: "max (?l - 52) (- 1074) = ?l - 52" using kl assms(2) by simp
  have c: "pow2 52 = of_int c" unfolding c_def pow2_52 by simp
  have split: "pow2 ?l = pow2 (?l - 52) * of_int c"
    using pow2_add [of "?l - 52" 52] by (simp add: c)
  have "of_int c \<le> x"
    using l(1) pow2_pos [of "?l - 52"] by (simp add: x_def split pos_le_divide_eq mult.commute)
  then have "c \<le> \<lfloor>x\<rfloor>" by (simp add: le_floor_iff)
  with round_even_floor [of x] have m: "c \<le> m" unfolding m_def by linarith
  then have "(of_int c :: rat) \<le> of_int m" by simp
  then have "pow2 (?l - 52) * of_int c \<le> of_int m * pow2 (?l - 52)"
    using pow2_pos [of "?l - 52"] by (simp add: mult.commute)
  with split have "pow2 ?l \<le> of_int m * pow2 (?l - 52)" by simp
  moreover have "pow2 k \<le> pow2 ?l" using kl by (simp add: pow2_le_iff)
  ultimately have v: "pow2 k \<le> of_int m * pow2 (?l - 52)" by simp
  have "0 < c" by (simp add: c_def)
  with m have m0: "m \<noteq> 0" by simp
  from double_of_pos [OF pos] m0 v show ?thesis
    unfolding e x_def [symmetric] m_def [symmetric] by blast
qed

lemma double_of_ge_one:
  assumes "1 \<le> q"
  shows "double_of q = PInf \<or> (\<exists>v. double_of q = Fin v \<and> 1 \<le> v)"
  using double_of_lower [of 0 q] assms by (simp add: pow2_def)

text \<open>A positive number up to \<open>2^(- 1075)\<close>, half the smallest double, rounds to zero.\<close>

lemma double_of_underflow:
  assumes "0 < q" and "q \<le> pow2 (- 1075)"
  shows "double_of q = Fin 0"
proof -
  let ?l = "floor_log2 q"
  define x where "x = q / pow2 (- 1074)"
  from floor_log2_bounds [OF assms(1)] assms(2) have "pow2 ?l \<le> pow2 (- 1075)" by simp
  then have "?l \<le> - 1075" by (simp add: pow2_le_iff)
  then have e: "max (?l - 52) (- 1074) = - 1074" by simp
  have "pow2 (- 1074) = 2 * pow2 (- 1075)" using pow2_Suc [of "- 1075"] by simp
  with assms(2) have "q * 2 \<le> pow2 (- 1074)" by simp
  then have half: "x \<le> 1 / 2"
    using pow2_pos [of "- 1074"] by (simp add: x_def pos_divide_le_eq)
  have "0 < x" using assms(1) pow2_pos [of "- 1074"] by (simp add: x_def)
  with half have f: "\<lfloor>x\<rfloor> = 0" by (simp add: floor_eq_iff)
  with half have m: "round_even (q / pow2 (- 1074)) = 0"
    by (simp add: round_even_def Let_def x_def)
  have q: "q \<noteq> 0" "\<not> q < 0" "\<bar>q\<bar> = q" using assms(1) by simp_all
  show ?thesis
    unfolding double_of_def Let_def q e using m assms(1) by (simp add: signed_zero_def)
qed

lemma double_of_number: "double_of q \<noteq> NaN"
  by (simp add: double_of_def Let_def signed_inf_def signed_zero_def)

lemma three_tenths: "double_of (3 / 10) = Fin (5404319552844595 / 18014398509481984)"
  by code_simp

lemma one_tenth: "double_of (1 / 10) = Fin (3602879701896397 / 36028797018963968)"
  by code_simp

section \<open>Properties of the scorer\<close>

lemmas num_defs = js_div_def js_mul_def js_sub_def js_lt_def js_gt_def is_zero_def is_inf_def
  signed_zero_def signed_inf_def divide_v_def subtract_v_def greater_v_def

lemmas example_defs = scenarioA_def scenarioB_def top_scorer_def unissued_def scenarioC_def
  mistyped_def twin_def supply3_def supply_missing_def supply1_def

subsection \<open>Bounds on the value\<close>

lemma marketCapGroup_value:
  "value s \<le> value (marketCapGroup r s) \<and> value (marketCapGroup r s) \<le> value s + 4"
  by (simp add: marketCapGroup_def add_factor_def Let_def)

lemma volumeGroup_value:
  "value s \<le> value (volumeGroup r s) \<and> value (volumeGroup r s) \<le> value s + 4"
  by (simp add: volumeGroup_def add_factor_def Let_def)

lemma priceChangeGroup_value:
  "value s \<le> value (priceChangeGroup r s) \<and> value (priceChangeGroup r s) \<le> value s + 4"
  by (simp add: priceChangeGroup_def add_factor_def Let_def)

lemma supplyRatioGroup_value:
  "value s \<le> value (supplyRatioGroup r s) \<and> value (supplyRatioGroup r s) \<le> value s + 3"
  by (simp add: supplyRatioGroup_def add_factor_def Let_def)

lemma bonusRule_value:
  "value s \<le> value (bonusRule r s) \<and> value (bonusRule r s) \<le> value s + 2"
  by (simp add: bonusRule_def add_factor_def Let_def)

lemma value_bounds: "0 \<le> value (analyzePotential r) \<and> value (analyzePotential r) \<le> 17"
proof -
  let ?s0 = "\<lparr>value = 0, factors = []\<rparr>"
  let ?s1 = "marketCapGroup r ?s0"
  let ?s2 = "volumeGroup r ?s1"
  let ?s3 = "priceChangeGroup r ?s2"
  let ?s4 = "supplyRatioGroup r ?s3"
  have "value ?s0 = 0" by simp
  moreover note marketCapGroup_value [of ?s0 r] volumeGroup_value [of ?s1 r]
    priceChangeGroup_value [of ?s2 r] supplyRatioGroup_value [of ?s3 r] bonusRule_value [of ?s4 r]
  ultimately show ?thesis
    unfolding analyzePotential_def Let_def by linarith
qed

subsection \<open>One factor per triggered group\<close>

lemma marketCapGroup_length:
  "length (factors (marketCapGroup r s)) =
     length (factors s) + (if triggered ap r ! 0 then 1 else 0)"
  by (simp add: marketCapGroup_def add_factor_def Let_def triggered_def millions_def)

lemma volumeGroup_length:
  "length (factors (volumeGroup r s)) =
     length (factors s) + (if triggered ap r ! 1 then 1 else 0)"
  by (simp add: volumeGroup_def add_factor_def Let_def triggered_def volume_ratio_def)

lemma priceChangeGroup_length:
  "length (factors (priceChangeGroup r s)) =
     length (factors s) + (if triggered ap r ! 2 then 1 else 0)"
  by (simp add: priceChangeGroup_def add_factor_def Let_def triggered_def)

lemma supplyRatioGroup_length:
  "length (factors (supplyRatioGroup r s)) =
     length (factors s) + (if triggered supply_truthy r ! 3 then 1 else 0)"
  by (simp add: supplyRatioGroup_def add_factor_def Let_def triggered_def supply_truthy_def
      supply_ratio_def)

lemma bonusRule_length:
  "length (factors (bonusRule r s)) =
     length (factors s) + (if triggered ap r ! 4 then 1 else 0)"
  by (simp add: bonusRule_def add_factor_def Let_def triggered_def)

lemma count_true5:
  "length (filter (\<lambda>b. b) [a, b, c, d, e]) =
     (if a then 1 else 0) + (if b then 1 else 0) + (if c then 1 else 0) +
     (if d then 1 else 0) + (if e then (1::nat) else 0)"
  by simp

lemma triggered_nth:
  "triggered ap r =
     [triggered ap r ! 0, triggered ap r ! 1, triggered ap r ! 2, triggered ap r ! 3,
      triggered ap r ! 4]"
  by (simp add: triggered_def)

lemma triggered_count_sum:
  "triggered_count ap r =
     (if triggered ap r ! 0 then 1 else 0) + (if triggered ap r ! 1 then 1 else 0) +
     (if triggered ap r ! 2 then 1 else 0) + (if triggered ap r ! 3 then 1 else 0) +
     (if triggered ap r ! 4 then 1 else 0)"
  unfolding triggered_count_def by (subst triggered_nth) (rule count_true5)

lemma factors_length: "length (factors (analyzePotential r)) = triggered_count supply_truthy r"
  unfolding analyzePotential_def Let_def
  by (simp only: bonusRule_length [of _ _ supply_truthy] supplyRatioGroup_length
      priceChangeGroup_length [of _ _ supply_truthy] volumeGroup_length [of _ _ supply_truthy]
      marketCapGroup_length [of _ _ supply_truthy] triggered_count_sum) simp

lemma triggered_count_le: "triggered_count ap r \<le> 5"
  by (simp add: triggered_count_sum)

lemma nothing_triggered:
  assumes "triggered_count supply_truthy r = 0"
  shows "analyzePotential r = \<lparr>value = 0, factors = []\<rparr>"
proof -
  from assms have f: "\<not> triggered supply_truthy r ! 0" "\<not> triggered supply_truthy r ! 1"
      "\<not> triggered supply_truthy r ! 2" "\<not> triggered supply_truthy r ! 3"
      "\<not> triggered supply_truthy r ! 4"
    by (auto simp: triggered_count_sum split: if_splits)
  have 1: "marketCapGroup r s = s" for s
    using f(1) by (simp add: marketCapGroup_def Let_def triggered_def millions_def)
  have 2: "volumeGroup r s = s" for s
    using f(2) by (simp add: volumeGroup_def Let_def triggered_def volume_ratio_def)
  have 3: "priceChangeGroup r s = s" for s
    using f(3) by (simp add: priceChangeGroup_def Let_def triggered_def)
  have 4: "supplyRatioGroup r s = s" for s
    using f(4)
    by (simp add: supplyRatioGroup_def Let_def triggered_def supply_truthy_def supply_ratio_def)
  have 5: "bonusRule r s = s" for s
    using f(5) by (simp add: bonusRule_def Let_def triggered_def)
  show ?thesis by (simp add: analyzePotential_def 1 2 3 4 5)
qed

subsection \<open>The two guards of the supply group\<close>

lemma absent_not_truthy: "\<not> supply_present r \<Longrightarrow> \<not> supply_truthy r"
  by (cases "total_supply r"; cases "circulating_supply r")
    (auto simp: supply_present_def supply_truthy_def present_def is_zero_def)

lemma guards_agree:
  assumes "\<not> zero_or_false (circulating_supply r)"
  shows "(supply_present r \<and> js_lt (supply_ratio r) t) =
         (supply_truthy r \<and> js_lt (supply_ratio r) t)"
proof (cases "supply_truthy r")
  case True
  with absent_not_truthy [of r] show ?thesis by blast
next
  case False
  have "\<not> js_lt (supply_ratio r) t" if "supply_present r"
    using that False assms
    by (cases "total_supply r"; cases "circulating_supply r")
      (auto simp: supply_present_def supply_truthy_def present_def supply_ratio_def divide_v_def
        js_div_def js_lt_def is_zero_def split: if_splits)
  with False show ?thesis by blast
qed

lemma triggered_agree:
  assumes "\<not> zero_or_false (circulating_supply r)"
  shows "triggered supply_present r = triggered supply_truthy r"
  using guards_agree [OF assms, of "Fin (1 / 2)"] guards_agree [OF assms, of "double_of (3 / 10)"]
  unfolding triggered_def by blast

lemma triggered_count_mono: "triggered_count supply_truthy r \<le> triggered_count supply_present r"
proof -
  have "triggered supply_truthy r ! 3 \<longrightarrow> triggered supply_present r ! 3"
    using absent_not_truthy [of r] by (auto simp: triggered_def)
  moreover have "triggered supply_truthy r ! i = triggered supply_present r ! i"
    if "i \<in> {0, 1, 2, 4}" for i
    using that by (auto simp: triggered_def)
  ultimately show ?thesis
    by (simp add: triggered_count_sum)
qed

subsection \<open>Scores of the example records\<close>

lemma scenarioA_score:
  "analyzePotential scenarioA =
     \<lparr>value = 15,
      factors = [''Micro market cap with massive growth potential'',
                 ''Exceptional trading volume relative to market cap'',
                 ''Strong positive price momentum (>15%)'',
                 ''Very large room for supply growth'']\<rparr>"
  by code_simp

lemma scenarioB_score: "analyzePotential scenarioB = \<lparr>value = 0, factors = []\<rparr>"
  by code_simp

lemma top_scorer_score:
  "analyzePotential top_scorer =
     \<lparr>value = 17,
      factors = [''Micro market cap with massive growth potential'',
                 ''Exceptional trading volume relative to market cap'',
                 ''Strong positive price momentum (>15%)'',
                 ''Very large room for supply growth'',
                 ''Extremely high trading activity'']\<rparr>"
  by code_simp

lemma unissued_score:
  "analyzePotential unissued =
     \<lparr>value = 12,
      factors = [''Micro market cap with massive growth potential'',
                 ''Exceptional trading volume relative to market cap'',
                 ''Strong positive price momentum (>15%)'']\<rparr>"
  by code_simp

lemma unissued_spec_score:
  "score_by_table (rule_table supply_present) unissued =
     \<lparr>value = 15,
      factors = [''Micro market cap with massive growth potential'',
                 ''Exceptional trading volume relative to market cap'',
                 ''Strong positive price momentum (>15%)'',
                 ''Very large room for supply growth'']\<rparr>"
  by code_simp

lemma triggered_scenarioB:
  "triggered supply_present scenarioB = [False, False, False, False, False]"
  by code_simp

lemma triggered_unissued:
  "triggered supply_present unissued = [True, True, True, True, False]"
  by code_simp

text \<open>
  The thresholds are doubles and the ratios are rounded. 2.7 / 9 rounds to the double above
  0.3 and earns the volume group's 3 points, 0.9 / 3 rounds to 0.3 and earns none;
  10527505.86 / 35091686.2 rounds to the double below 0.3 and earns the supply group's 3.
\<close>

lemma scores_at_the_thresholds:
  "volumeGroup volume_27_of_9 \<lparr>value = 0, factors = []\<rparr> =
     \<lparr>value = 3, factors = [''Very high trading volume relative to market cap'']\<rparr>"
  "volumeGroup volume_09_of_3 \<lparr>value = 0, factors = []\<rparr> = \<lparr>value = 0, factors = []\<rparr>"
  "supplyRatioGroup supply_three_tenths \<lparr>value = 0, factors = []\<rparr> =
     \<lparr>value = 3, factors = [''Very large room for supply growth'']\<rparr>"
  "analyzePotential volume_27_of_9 =
     \<lparr>value = 7,
      factors = [''Micro market cap with massive growth potential'',
                 ''Very high trading volume relative to market cap'']\<rparr>"
  by code_simp+

subsection \<open>Range of the value and number of factors\<close>

text \<open>
  Claim C3, as amended. For every record the score's value is an integer between 0 and 17.
  The factors list has one entry per rule group that is triggered when the supply group
  applies only to a truthy \<^verbatim>\<open>total_supply\<close> and \<^verbatim>\<open>circulating_supply\<close>; that is never more
  than the number of groups triggered as the specification has them, which is at most five,
  and it is that number for every record whose circulating supply is neither a zero nor
  \<^verbatim>\<open>false\<close>. When no group is triggered the result is the score 0 with an empty factors
  list. (\<open>analyzePotential\<close> is total: it has no failing branch.)
\<close>

theorem score_range_and_factor_count:
  "0 \<le> value (analyzePotential r) \<and> value (analyzePotential r) \<le> 17 \<and>
   length (factors (analyzePotential r)) = triggered_count supply_truthy r \<and>
   triggered_count supply_truthy r \<le> triggered_count supply_present r \<and>
   triggered_count supply_present r \<le> 5 \<and>
   (\<not> zero_or_false (circulating_supply r) \<longrightarrow>
      length (factors (analyzePotential r)) = triggered_count supply_present r) \<and>
   (triggered_count supply_truthy r = 0 \<longrightarrow>
      analyzePotential r = \<lparr>value = 0, factors = []\<rparr>) \<and>
   (triggered_count supply_present r = 0 \<longrightarrow>
      analyzePotential r = \<lparr>value = 0, factors = []\<rparr>)"
proof (intro conjI impI)
  show "0 \<le> value (analyzePotential r)" "value (analyzePotential r) \<le> 17"
    using value_bounds [of r] by simp_all
  show "length (factors (analyzePotential r)) = triggered_count supply_truthy r"
    by (rule factors_length)
  show "triggered_count supply_truthy r \<le> triggered_count supply_present r"
    by (rule triggered_count_mono)
  show "triggered_count supply_present r \<le> 5"
    by (rule triggered_count_le)
  show "length (factors (analyzePotential r)) = triggered_count supply_present r"
    if "\<not> zero_or_false (circulating_supply r)"
    using triggered_agree [OF that] by (simp add: factors_length triggered_count_def)
  show "analyzePotential r = \<lparr>value = 0, factors = []\<rparr>"
    if "triggered_count supply_truthy r = 0"
    using that by (rule nothing_triggered)
  show "analyzePotential r = \<lparr>value = 0, factors = []\<rparr>"
    if "triggered_count supply_present r = 0"
    using that triggered_count_mono [of r] by (simp add: nothing_triggered)
qed

text \<open>
  On Scenario B no group is triggered. On \<open>top_scorer\<close> all five are, and the bound 17 is
  met.
\<close>

lemma top_scorer_17:
  "value (analyzePotential top_scorer) = 17 \<and> length (factors (analyzePotential top_scorer)) = 5"
  by (simp add: top_scorer_score)

theorem score_range_and_factor_count_witness:
  "\<not> zero_or_false (circulating_supply scenarioB) \<and>
   triggered_count supply_present scenarioB = 0 \<and>
   triggered_count supply_truthy scenarioB = 0 \<and>
   analyzePotential scenarioB = \<lparr>value = 0, factors = []\<rparr> \<and>
   length (factors (analyzePotential scenarioB)) = 0"
proof -
  have z: "\<not> zero_or_false (circulating_supply scenarioB)"
    by (simp add: scenarioB_def)
  have p: "triggered_count supply_present scenarioB = 0"
    by (simp add: triggered_count_def triggered_scenarioB)
  from score_range_and_factor_count [of scenarioB] p
  have t: "triggered_count supply_truthy scenarioB = 0" by linarith
  from score_range_and_factor_count [of scenarioB] z p
  have "analyzePotential scenarioB = \<lparr>value = 0, factors = []\<rparr>"
    "length (factors (analyzePotential scenarioB)) = 0"
    by simp_all
  with z p t show ?thesis by (intro conjI)
qed

text \<open>
  On \<open>unissued\<close> (circulating supply 0 of 100) four groups are triggered as the
  specification has them: both supply fields are present, the denominator is not zero and the
  ratio 0 is below 0.3. The factors list has three entries.
\<close>

theorem factor_count_counterexample:
  "triggered_count supply_present unissued = 4 \<and>
   length (factors (analyzePotential unissued)) = 3"
  by (simp add: triggered_count_def triggered_unissued unissued_score)

subsection \<open>The scorer follows the rule table\<close>

lemma marketCapGroup_tier:
  "marketCapGroup r s = contribute (first_match (rule_table ap ! 0) r) s"
  by (simp add: marketCapGroup_def rule_table_def contribute_def millions_def Let_def)

lemma volumeGroup_tier:
  "volumeGroup r s = contribute (first_match (rule_table ap ! 1) r) s"
  by (simp add: volumeGroup_def rule_table_def contribute_def volume_ratio_def Let_def)

lemma priceChangeGroup_tier:
  "priceChangeGroup r s = contribute (first_match (rule_table ap ! 2) r) s"
  by (simp add: priceChangeGroup_def rule_table_def contribute_def Let_def)

lemma supplyRatioGroup_tier:
  "supplyRatioGroup r s = contribute (first_match (rule_table supply_truthy ! 3) r) s"
  by (simp add: supplyRatioGroup_def rule_table_def contribute_def supply_ratio_def
      supply_truthy_def Let_def)

lemma bonusRule_tier:
  "bonusRule r s = contribute (first_match (rule_table ap ! 4) r) s"
  by (simp add: bonusRule_def rule_table_def contribute_def Let_def)

lemma rule_table_groups:
  "rule_table ap =
     [rule_table ap ! 0, rule_table ap ! 1, rule_table ap ! 2, rule_table ap ! 3,
      rule_table ap ! 4]"
  by (simp add: rule_table_def)

lemma contribute_value:
  "value (contribute c s) =
     value s + sum_list (map fst (case c of None \<Rightarrow> [] | Some c \<Rightarrow> [c]))"
  by (cases c) (auto simp: contribute_def add_factor_def)

lemma contribute_factors:
  "factors (contribute c s) = factors s @ map snd (case c of None \<Rightarrow> [] | Some c \<Rightarrow> [c])"
  by (cases c) (auto simp: contribute_def add_factor_def)

lemma contribute_fold:
  "foldl (\<lambda>s g. contribute (first_match g r) s) s table =
     \<lparr>value = value s + sum_list (map fst (contributions table r)),
      factors = factors s @ map snd (contributions table r)\<rparr>"
proof (induction table arbitrary: s)
  case Nil
  show ?case by (simp add: contributions_def)
next
  case (Cons g table)
  show ?case
    by (simp add: Cons.IH contributions_def contribute_value contribute_factors)
qed

lemma analyze_fold:
  "analyzePotential r =
     foldl (\<lambda>s g. contribute (first_match g r) s) \<lparr>value = 0, factors = []\<rparr>
       (rule_table supply_truthy)"
proof -
  let ?t = "rule_table supply_truthy"
  let ?f = "\<lambda>s g. contribute (first_match g r) s"
  have "foldl ?f \<lparr>value = 0, factors = []\<rparr> ?t =
        foldl ?f \<lparr>value = 0, factors = []\<rparr> [?t ! 0, ?t ! 1, ?t ! 2, ?t ! 3, ?t ! 4]"
    using rule_table_groups [of supply_truthy] by simp
  also have "\<dots> = analyzePotential r"
    unfolding analyzePotential_def Let_def foldl.simps
    by (simp only: marketCapGroup_tier [of _ _ supply_truthy]
        volumeGroup_tier [of _ _ supply_truthy] priceChangeGroup_tier [of _ _ supply_truthy]
        supplyRatioGroup_tier bonusRule_tier [of _ _ supply_truthy])
  finally show ?thesis by simp
qed

lemma analyze_table: "analyzePotential r = score_by_table (rule_table supply_truthy) r"
  by (simp add: analyze_fold contribute_fold score_by_table_def)

lemma spec_table_agrees:
  assumes "\<not> zero_or_false (circulating_supply r)"
  shows "score_by_table (rule_table supply_present) r =
         score_by_table (rule_table supply_truthy) r"
  using guards_agree [OF assms, of "Fin (1 / 2)"] guards_agree [OF assms, of "double_of (3 / 10)"]
  by (auto simp: score_by_table_def contributions_def rule_table_def)

lemma scenarioA_metrics:
  "js_div (Fin 5000000) (Fin 1000000) = Fin 5"
  "js_div (Fin 3000000) (Fin 5000000) = Fin (5404319552844595 / 9007199254740992)"
  "js_div (Fin 20) (Fin 100) = Fin (3602879701896397 / 18014398509481984)"
  by code_simp+

text \<open>
  Claim C1, as amended. For every record, \<open>analyzePotential\<close> computes the rule table:
  in each group only the first matching tier contributes, the bonus is independent, the value
  is the sum of the contributions and the factors are their texts in rule order, where the
  supply group applies only if \<^verbatim>\<open>total_supply\<close> and \<^verbatim>\<open>circulating_supply\<close> are both truthy
  (neither missing, \<^verbatim>\<open>null\<close>, \<^verbatim>\<open>false\<close>, zero nor NaN). For every record whose circulating
  supply is neither a zero nor \<^verbatim>\<open>false\<close> (it may be missing or \<^verbatim>\<open>null\<close>) this is the table
  as the specification words it. The Scenario A record scores 15.
\<close>

theorem analyzePotential_rule_table:
  "analyzePotential r = score_by_table (rule_table supply_truthy) r \<and>
   (\<not> zero_or_false (circulating_supply r) \<longrightarrow>
      analyzePotential r = score_by_table (rule_table supply_present) r) \<and>
   value (analyzePotential
     \<lparr>coin_id = i, name = n, symbol = sy, market_cap = Num (Fin 5000000),
      total_volume = Num (Fin 3000000), price_change_percentage_24h = Num (Fin 20),
      total_supply = Num (Fin 100), circulating_supply = Num (Fin 20)\<rparr>) = 15"
proof (intro conjI impI)
  show "analyzePotential r = score_by_table (rule_table supply_truthy) r"
    by (rule analyze_table)
  show "analyzePotential r = score_by_table (rule_table supply_present) r"
    if "\<not> zero_or_false (circulating_supply r)"
    using that by (simp add: analyze_table spec_table_agrees)
  show "value (analyzePotential
     \<lparr>coin_id = i, name = n, symbol = sy, market_cap = Num (Fin 5000000),
      total_volume = Num (Fin 3000000), price_change_percentage_24h = Num (Fin 20),
      total_supply = Num (Fin 100), circulating_supply = Num (Fin 20)\<rparr>) = 15"
    by (simp add: analyzePotential_def marketCapGroup_def volumeGroup_def
      priceChangeGroup_def supplyRatioGroup_def bonusRule_def add_factor_def divide_v_def
      greater_v_def scenarioA_metrics three_tenths js_lt_def js_gt_def is_zero_def Let_def)
qed

theorem analyzePotential_rule_table_witness:
  "\<not> zero_or_false (circulating_supply scenarioA) \<and>
   score_by_table (rule_table supply_present) scenarioA =
     \<lparr>value = 15,
      factors = [''Micro market cap with massive growth potential'',
                 ''Exceptional trading volume relative to market cap'',
                 ''Strong positive price momentum (>15%)'',
                 ''Very large room for supply growth'']\<rparr>"
proof -
  have z: "\<not> zero_or_false (circulating_supply scenarioA)"
    by (simp add: scenarioA_def is_zero_def)
  with analyzePotential_rule_table [of scenarioA]
  have "analyzePotential scenarioA = score_by_table (rule_table supply_present) scenarioA"
    by blast
  from this [symmetric] scenarioA_score
  have "score_by_table (rule_table supply_present) scenarioA =
     \<lparr>value = 15,
      factors = [''Micro market cap with massive growth potential'',
                 ''Exceptional trading volume relative to market cap'',
                 ''Strong positive price momentum (>15%)'',
                 ''Very large room for supply growth'']\<rparr>"
    by (rule trans)
  with z show ?thesis by (intro conjI)
qed

text \<open>
  With the supply group applying whenever both fields are present and the denominator is
  not zero, as the specification words it, the table gives \<open>unissued\<close> (circulating supply 0
  of 100) 15 points and four factors; \<open>analyzePotential\<close> gives it 12 and three.
\<close>

theorem spec_rule_table_counterexample:
  "analyzePotential unissued \<noteq> score_by_table (rule_table supply_present) unissued"
  by (simp add: unissued_score unissued_spec_score)

subsection \<open>The supply group\<close>

lemma js_lt_mono: "js_lt x (Fin a) \<Longrightarrow> a \<le> b \<Longrightarrow> js_lt x (Fin b)"
  by (auto simp: js_lt_def split: if_splits)

lemma below_three_tenths: "js_lt x (double_of (3 / 10)) \<Longrightarrow> js_lt x (Fin (1 / 2))"
proof -
  have "(5404319552844595 / 18014398509481984 :: rat) \<le> 1 / 2"
    by (simp add: pos_divide_le_eq)
  then show "js_lt x (double_of (3 / 10)) \<Longrightarrow> js_lt x (Fin (1 / 2))"
    unfolding three_tenths by (rule js_lt_mono [rotated])
qed

lemma supplyRatioGroup_truthy: "supplyRatioGroup r s = supply_group_truthy r s"
  using below_three_tenths [of "supply_ratio r"]
  by (auto simp: supplyRatioGroup_def supply_group_truthy_def supply_truthy_def supply_ratio_def
      Let_def)

lemma supplyRatioGroup_skip: "\<not> supply_truthy r \<Longrightarrow> supplyRatioGroup r s = s"
  by (auto simp: supplyRatioGroup_def supply_truthy_def)

lemma spec_group_agrees:
  assumes "\<not> zero_or_false (circulating_supply r)"
  shows "supply_group_spec r s = supply_group_truthy r s"
  using guards_agree [OF assms, of "Fin (1 / 2)"]
  by (auto simp: supply_group_spec_def supply_group_truthy_def)

lemma without_supply_groups:
  "marketCapGroup (without_supply r) s = marketCapGroup r s"
  "volumeGroup (without_supply r) s = volumeGroup r s"
  "priceChangeGroup (without_supply r) s = priceChangeGroup r s"
  "supplyRatioGroup (without_supply r) s = s"
  "bonusRule (without_supply r) s = bonusRule r s"
  by (simp_all add: without_supply_def marketCapGroup_def volumeGroup_def priceChangeGroup_def
      supplyRatioGroup_def bonusRule_def)

lemma analyze_without_supply:
  "analyzePotential (without_supply r) =
     bonusRule r (priceChangeGroup r (volumeGroup r (marketCapGroup r \<lparr>value = 0, factors = []\<rparr>)))"
  by (simp add: analyzePotential_def without_supply_groups)

lemma bonusRule_after_add:
  "value (bonusRule r (add_factor p t s)) = value (bonusRule r s) + p"
  "length (factors (bonusRule r (add_factor p t s))) = Suc (length (factors (bonusRule r s)))"
  by (simp_all add: bonusRule_def add_factor_def)

text \<open>
  Claim C4, as amended. The supply-ratio group contributes points and a factor exactly when
  \<^verbatim>\<open>total_supply\<close> and \<^verbatim>\<open>circulating_supply\<close> are both truthy and their ratio, rounded as the
  division rounds it, is below 0.5 (3 points below the double 0.3, else 2); otherwise the
  score is that of the record without its supply fields: no points and no factor. In
  particular the group adds nothing when a supply field is absent or the denominator is
  zero, and for every record whose circulating supply is neither a zero nor \<^verbatim>\<open>false\<close> the
  group is as the claim words it.
\<close>

theorem supply_group_needs_truthy_fields:
  "supplyRatioGroup r s = supply_group_truthy r s \<and>
   (\<not> supply_present r \<longrightarrow> supplyRatioGroup r s = s) \<and>
   (\<not> zero_or_false (circulating_supply r) \<longrightarrow>
      supplyRatioGroup r s = supply_group_spec r s) \<and>
   (\<not> (supply_truthy r \<and> js_lt (supply_ratio r) (Fin (1 / 2))) \<longrightarrow>
      analyzePotential r = analyzePotential (without_supply r)) \<and>
   (supply_truthy r \<and> js_lt (supply_ratio r) (Fin (1 / 2)) \<longrightarrow>
      value (analyzePotential r) =
        value (analyzePotential (without_supply r)) +
        (if js_lt (supply_ratio r) (double_of (3 / 10)) then 3 else 2) \<and>
      length (factors (analyzePotential r)) =
        Suc (length (factors (analyzePotential (without_supply r)))))"
proof (intro conjI impI)
  let ?s3 = "priceChangeGroup r (volumeGroup r (marketCapGroup r \<lparr>value = 0, factors = []\<rparr>))"
  have a: "analyzePotential r = bonusRule r (supply_group_truthy r ?s3)"
    by (simp add: analyzePotential_def supplyRatioGroup_truthy)
  show "supplyRatioGroup r s = supply_group_truthy r s"
    by (rule supplyRatioGroup_truthy)
  show "supplyRatioGroup r s = supply_group_spec r s"
    if "\<not> zero_or_false (circulating_supply r)"
    using that by (simp add: supplyRatioGroup_truthy spec_group_agrees)
  show "supplyRatioGroup r s = s" if "\<not> supply_present r"
    using that absent_not_truthy [of r] by (simp add: supplyRatioGroup_skip)
  show "analyzePotential r = analyzePotential (without_supply r)"
    if "\<not> (supply_truthy r \<and> js_lt (supply_ratio r) (Fin (1 / 2)))"
    using that by (auto simp: a analyze_without_supply supply_group_truthy_def)
  show "value (analyzePotential r) =
        value (analyzePotential (without_supply r)) +
        (if js_lt (supply_ratio r) (double_of (3 / 10)) then 3 else 2)"
    if "supply_truthy r \<and> js_lt (supply_ratio r) (Fin (1 / 2))"
    using that by (simp add: a analyze_without_supply supply_group_truthy_def bonusRule_after_add)
  show "length (factors (analyzePotential r)) =
        Suc (length (factors (analyzePotential (without_supply r))))"
    if "supply_truthy r \<and> js_lt (supply_ratio r) (Fin (1 / 2))"
    using that by (simp add: a analyze_without_supply supply_group_truthy_def bonusRule_after_add)
qed

lemma scenarioA_supply:
  "supply_truthy scenarioA \<and> js_lt (supply_ratio scenarioA) (double_of (3 / 10)) \<and>
   js_lt (supply_ratio scenarioA) (Fin (1 / 2)) \<and> \<not> zero_or_false (circulating_supply scenarioA)"
  by code_simp

lemma scenarioB_supply: "\<not> supply_truthy scenarioB \<and> \<not> supply_present scenarioB"
  by (simp add: supply_truthy_def supply_present_def present_def scenarioB_def)

theorem supply_group_needs_truthy_fields_witness:
  "supply_truthy scenarioA \<and> js_lt (supply_ratio scenarioA) (Fin (1 / 2)) \<and>
   \<not> zero_or_false (circulating_supply scenarioA) \<and>
   supplyRatioGroup scenarioA \<lparr>value = 0, factors = []\<rparr> =
     supply_group_spec scenarioA \<lparr>value = 0, factors = []\<rparr> \<and>
   value (analyzePotential scenarioA) = value (analyzePotential (without_supply scenarioA)) + 3 \<and>
   \<not> supply_truthy scenarioB \<and> \<not> supply_present scenarioB \<and>
   supplyRatioGroup scenarioB \<lparr>value = 0, factors = []\<rparr> = \<lparr>value = 0, factors = []\<rparr> \<and>
   analyzePotential scenarioB = analyzePotential (without_supply scenarioB)"
proof -
  let ?s = "\<lparr>value = 0, factors = []\<rparr>"
  note a = supply_group_needs_truthy_fields [of scenarioA ?s]
  note b = supply_group_needs_truthy_fields [of scenarioB ?s]
  from a scenarioA_supply
  have 1: "supplyRatioGroup scenarioA ?s = supply_group_spec scenarioA ?s"
    by blast
  from a scenarioA_supply
  have "value (analyzePotential scenarioA) =
        value (analyzePotential (without_supply scenarioA)) +
        (if js_lt (supply_ratio scenarioA) (double_of (3 / 10)) then 3 else 2)"
    by blast
  with scenarioA_supply
  have 2: "value (analyzePotential scenarioA) =
           value (analyzePotential (without_supply scenarioA)) + 3"
    by simp
  from b scenarioB_supply have 3: "supplyRatioGroup scenarioB ?s = ?s"
    by blast
  from b scenarioB_supply
  have 4: "analyzePotential scenarioB = analyzePotential (without_supply scenarioB)"
    by blast
  from 1 2 3 4 scenarioA_supply scenarioB_supply show ?thesis
    by blast
qed

text \<open>
  On \<open>unissued\<close> both supply fields are present, the denominator is 100 and the ratio is 0,
  so the claim as stated promises 3 points; the source's guard reads the circulating supply 0
  as false and the group adds nothing.
\<close>

theorem supply_group_spec_counterexample:
  "supply_present unissued \<and> js_lt (supply_ratio unissued) (Fin (1 / 2)) \<and>
   supply_group_spec unissued \<lparr>value = 0, factors = []\<rparr> =
     \<lparr>value = 3, factors = [''Very large room for supply growth'']\<rparr> \<and>
   supplyRatioGroup unissued \<lparr>value = 0, factors = []\<rparr> = \<lparr>value = 0, factors = []\<rparr> \<and>
   analyzePotential unissued = analyzePotential (without_supply unissued)"
  by code_simp

subsection \<open>The bonus rule and the volume group\<close>

lemma js_bonus_ratio:
  assumes "js_gt x (Fin 0)" and "js_gt y x"
  shows "js_gt (js_div y x) (Fin (1 / 2))"
proof (cases x)
  case (Fin a)
  with assms(1) have a: "0 < a" by (simp add: js_gt_def js_lt_def)
  show ?thesis
  proof (cases y)
    case (Fin b)
    with assms(2) \<open>x = Fin a\<close> have "a < b" by (simp add: js_gt_def js_lt_def)
    with a have "1 \<le> b / a" by (simp add: field_simps)
    from double_of_ge_one [OF this] have "js_gt (double_of (b / a)) (Fin (1 / 2))"
      by (auto simp: js_gt_def js_lt_def)
    with a \<open>a < b\<close> show ?thesis using Fin \<open>x = Fin a\<close> by (simp add: js_div_def is_zero_def is_inf_def)
  qed (use assms a Fin in \<open>simp_all add: num_defs\<close>)
qed (use assms in \<open>simp_all add: num_defs split: if_splits\<close>)

lemma bonus_ratio:
  assumes "greater_v (market_cap r) (Num (Fin 0))" and "greater_v (total_volume r) (market_cap r)"
  shows "js_gt (volume_ratio r) (Fin (1 / 2))"
  using assms js_bonus_ratio [of "ToNumber (market_cap r)" "ToNumber (total_volume r)"]
  by (simp add: greater_v_def volume_ratio_def divide_v_def)

lemma factors_members:
  "(''Extremely high trading activity'' \<in> set (factors (analyzePotential r))) =
     greater_v (total_volume r) (market_cap r)"
  "js_gt (volume_ratio r) (Fin (1 / 2)) \<Longrightarrow>
     ''Exceptional trading volume relative to market cap'' \<in> set (factors (analyzePotential r))"
  by (simp_all add: analyze_table score_by_table_def contributions_def rule_table_def)

lemma volumeGroup_top:
  "js_gt (volume_ratio r) (Fin (1 / 2)) \<Longrightarrow>
   volumeGroup r s = add_factor 4 ''Exceptional trading volume relative to market cap'' s"
  by (simp add: volumeGroup_def volume_ratio_def)

lemma value_with_bonus:
  assumes "js_gt (volume_ratio r) (Fin (1 / 2))" and "greater_v (total_volume r) (market_cap r)"
  shows "6 \<le> value (analyzePotential r)"
proof -
  let ?s0 = "\<lparr>value = 0, factors = []\<rparr>"
  let ?s1 = "marketCapGroup r ?s0"
  let ?s2 = "volumeGroup r ?s1"
  let ?s3 = "priceChangeGroup r ?s2"
  let ?s4 = "supplyRatioGroup r ?s3"
  have "value ?s0 = 0" by simp
  moreover have "value ?s2 = value ?s1 + 4"
    using assms(1) by (simp add: volumeGroup_def volume_ratio_def add_factor_def)
  moreover have "value (bonusRule r ?s4) = value ?s4 + 2"
    using assms(2) by (simp add: bonusRule_def add_factor_def)
  moreover note marketCapGroup_value [of ?s0 r]
    priceChangeGroup_value [of ?s2 r] supplyRatioGroup_value [of ?s3 r]
  ultimately show ?thesis
    unfolding analyzePotential_def Let_def by linarith
qed

text \<open>
  Claim C10. For a record with \<^verbatim>\<open>market_cap > 0\<close>: if the bonus rule fires
  (\<^verbatim>\<open>total_volume > market_cap\<close>) then the volume group's top tier fired too; so whenever the
  factors contain "Extremely high trading activity" they contain "Exceptional trading volume
  relative to market cap" as well, and the value is at least 6.
\<close>

theorem bonus_implies_top_volume_tier:
  assumes "greater_v (market_cap r) (Num (Fin 0))"
  shows "(greater_v (total_volume r) (market_cap r) \<longrightarrow>
       js_gt (volume_ratio r) (Fin (1 / 2)) \<and>
       volumeGroup r s =
         add_factor 4 ''Exceptional trading volume relative to market cap'' s) \<and>
    (''Extremely high trading activity'' \<in> set (factors (analyzePotential r)) \<longrightarrow>
       ''Exceptional trading volume relative to market cap'' \<in> set (factors (analyzePotential r)) \<and>
       6 \<le> value (analyzePotential r))"
  using assms bonus_ratio [of r] factors_members [of r] value_with_bonus [of r]
    volumeGroup_top [of r s]
  by blast

theorem bonus_implies_top_volume_tier_witness:
  "greater_v (market_cap top_scorer) (Num (Fin 0)) \<and>
   greater_v (total_volume top_scorer) (market_cap top_scorer) \<and>
   js_gt (volume_ratio top_scorer) (Fin (1 / 2)) \<and>
   ''Extremely high trading activity'' \<in> set (factors (analyzePotential top_scorer)) \<and>
   ''Exceptional trading volume relative to market cap'' \<in> set (factors (analyzePotential top_scorer)) \<and>
   6 \<le> value (analyzePotential top_scorer)"
proof -
  have c: "greater_v (market_cap top_scorer) (Num (Fin 0))"
    and v: "greater_v (total_volume top_scorer) (market_cap top_scorer)"
    by (simp_all add: example_defs num_defs)
  from v have "''Extremely high trading activity'' \<in> set (factors (analyzePotential top_scorer))"
    by (simp add: factors_members)
  with c v bonus_implies_top_volume_tier [OF c] show ?thesis by simp
qed

section \<open>Properties of the candidate filter\<close>

lemma isPotentialGem_conditions: "isPotentialGem r = inclusion_conditions r"
  by (auto simp: isPotentialGem_def inclusion_conditions_def millions_def volume_ratio_def Let_def)

lemma potentialGems_spec: "potentialGems data = filter inclusion_conditions data"
  by (simp add: potentialGems_def isPotentialGem_conditions [abs_def])

lemma potentialGems_store_result:
  "potentialGems_store h data = (h @ [potentialGems (h ! data)], length h)"
  by (simp add: potentialGems_store_def filter_new_def potentialGems_def)

text \<open>
  Claim C2. For every input list the filter's output is a subsequence of the input, in input
  order; a record is in the output exactly when it is in the input and meets the three
  inclusion conditions (\<^verbatim>\<open>market_cap > 0\<close>, \<^verbatim>\<open>market_cap / 1000000 < 100\<close>,
  \<^verbatim>\<open>total_volume / market_cap > 0.1\<close>), so every excluded record violates one of them. The
  conditions are read in the arithmetic of the program's numbers: the quotients are rounded
  to doubles and 0.1 is the double nearest to one tenth. On the store the filter allocates
  its result and leaves every existing array as it was.
\<close>

theorem filter_keeps_exactly_the_included:
  "potentialGems data = filter inclusion_conditions data \<and>
   subseq (potentialGems data) data \<and>
   set (potentialGems data) = {r \<in> set data. inclusion_conditions r} \<and>
   (\<forall>r \<in> set data. r \<notin> set (potentialGems data) \<longrightarrow>
      \<not> greater_v (market_cap r) (Num (Fin 0)) \<or> \<not> js_lt (millions r) (Fin 100) \<or>
      \<not> js_gt (volume_ratio r) (double_of (1 / 10))) \<and>
   (data_ref < length h \<longrightarrow>
      snd (potentialGems_store h data_ref) = length h \<and>
      fst (potentialGems_store h data_ref) ! length h = potentialGems (h ! data_ref) \<and>
      take (length h) (fst (potentialGems_store h data_ref)) = h)"
  by (auto simp: potentialGems_spec potentialGems_store_result inclusion_conditions_def)

lemma scenario_inclusion:
  "inclusion_conditions scenarioA" "\<not> js_gt (volume_ratio scenarioB) (double_of (1 / 10))"
  "\<not> greater_v (market_cap scenarioC) (Num (Fin 0))"
  by code_simp+

lemma potentialGems_example:
  "potentialGems [scenarioB, scenarioA, scenarioC] = [scenarioA]"
  using scenario_inclusion
  by (simp add: potentialGems_spec inclusion_conditions_def)

theorem filter_keeps_exactly_the_included_witness:
  "potentialGems [scenarioB, scenarioA, scenarioC] = [scenarioA] \<and>
   subseq [scenarioA] [scenarioB, scenarioA, scenarioC] \<and>
   \<not> js_gt (volume_ratio scenarioB) (double_of (1 / 10)) \<and>
   \<not> greater_v (market_cap scenarioC) (Num (Fin 0)) \<and>
   potentialGems_store [[scenarioB, scenarioA, scenarioC]] 0 =
     ([[scenarioB, scenarioA, scenarioC], [scenarioA]], 1)"
proof -
  let ?data = "[scenarioB, scenarioA, scenarioC]"
  have l: "(0::nat) < length [?data]" by simp
  from filter_keeps_exactly_the_included [of ?data 0 "[?data]"]
  have "subseq (potentialGems ?data) ?data"
    and "snd (potentialGems_store [?data] 0) = length [?data]"
    and "fst (potentialGems_store [?data] 0) ! length [?data] = potentialGems ([?data] ! 0)"
    and "take (length [?data]) (fst (potentialGems_store [?data] 0)) = [?data]"
    using l by blast+
  then show ?thesis
    using scenario_inclusion
    by (simp add: potentialGems_example potentialGems_store_result)
qed

text \<open>
  At the threshold: 308566.28 / 3085662.8 rounds to the double above 0.1 and the record is
  kept; 0.1 / 1 is the double 0.1, which is not above itself, and the record is dropped.
\<close>

lemma filter_at_the_threshold:
  "potentialGems [tenth_above, tenth_exact] = [tenth_above]"
  by code_simp

lemma falsy_numbers:
  "\<not> ToBoolean v \<Longrightarrow> ToNumber v = NaN \<or> ToNumber v = Fin 0 \<or> ToNumber v = NZero"
  by (cases v) (auto simp: is_zero_def)

lemma falsy_cap: "\<not> ToBoolean (market_cap r) \<Longrightarrow> \<not> isPotentialGem r"
  using falsy_numbers [of "market_cap r"]
  by (auto simp: isPotentialGem_def Let_def greater_v_def js_gt_def js_lt_def)

lemma falsy_volume: "\<not> ToBoolean (total_volume r) \<Longrightarrow> \<not> isPotentialGem r"
proof -
  assume "\<not> ToBoolean (total_volume r)"
  then have v: "ToNumber (total_volume r) = NaN \<or> ToNumber (total_volume r) = Fin 0 \<or>
      ToNumber (total_volume r) = NZero"
    by (rule falsy_numbers)
  have "\<not> js_gt (js_div x y) (double_of (1 / 10))" if "x = NaN \<or> x = Fin 0 \<or> x = NZero" for x y
    using that unfolding one_tenth by (cases y) (auto simp: num_defs)
  with v show ?thesis
    by (simp add: isPotentialGem_def Let_def divide_v_def)
qed

text \<open>
  Claim C8, as amended. Every record whose \<^verbatim>\<open>market_cap\<close> or \<^verbatim>\<open>total_volume\<close> is falsy
  (missing, \<^verbatim>\<open>null\<close>, \<^verbatim>\<open>false\<close>, zero or NaN) fails the predicate and is in no output of the
  filter. The predicate is total: division and comparison raise no error on any value.
\<close>

theorem filter_drops_falsy_records:
  assumes "\<not> ToBoolean (market_cap r) \<or> \<not> ToBoolean (total_volume r)"
  shows "\<not> isPotentialGem r \<and> r \<notin> set (potentialGems data)"
  using assms falsy_cap [of r] falsy_volume [of r] by (auto simp: potentialGems_def)

theorem filter_drops_falsy_records_witness:
  "\<not> ToBoolean (market_cap (scenarioA\<lparr>market_cap := Null\<rparr>)) \<and>
   \<not> isPotentialGem (scenarioA\<lparr>market_cap := Null\<rparr>) \<and>
   \<not> ToBoolean (total_volume (scenarioA\<lparr>total_volume := Undefined\<rparr>)) \<and>
   potentialGems [scenarioA\<lparr>total_volume := Undefined\<rparr>] = []"
proof -
  have a: "\<not> ToBoolean (market_cap (scenarioA\<lparr>market_cap := Null\<rparr>))"
    and b: "\<not> ToBoolean (total_volume (scenarioA\<lparr>total_volume := Undefined\<rparr>))"
    by simp_all
  from a filter_drops_falsy_records [of "scenarioA\<lparr>market_cap := Null\<rparr>" "[]"]
  have 1: "\<not> isPotentialGem (scenarioA\<lparr>market_cap := Null\<rparr>)" by blast
  from b filter_drops_falsy_records [of "scenarioA\<lparr>total_volume := Undefined\<rparr>" "[]"]
  have 2: "\<not> isPotentialGem (scenarioA\<lparr>total_volume := Undefined\<rparr>)" by blast
  from 2 have 3: "potentialGems [scenarioA\<lparr>total_volume := Undefined\<rparr>] = []"
    by (simp add: potentialGems_def)
  from a 1 b 3 show ?thesis by (intro conjI)
qed

text \<open>
  A market cap of a non-numeric type can pass: the boolean \<^verbatim>\<open>true\<close> converts to 1, so
  \<open>mistyped\<close> meets all three conditions and is kept.
\<close>

theorem non_numeric_counterexample:
  "\<not> numeric (market_cap mistyped) \<and> potentialGems [mistyped] = [mistyped]"
  by code_simp

section \<open>Properties of the ranker\<close>

subsection \<open>The comparator and the order of the keys\<close>

lemma sign_of_difference: "js_gt (let v = js_sub y x in if v = NaN then Fin 0 else v) (Fin 0) = js_lt x y"
  by (cases x; cases y) (auto simp: num_defs Let_def)

lemma js_sub_Fin: "js_sub (Fin a) (Fin b) = Fin (a - b)"
  by (simp add: num_defs)

lemma compareFn_keys:
  "compareFn f d a b =
     (if d = ''desc'' then js_sub (rank_key f b) (rank_key f a)
      else js_sub (rank_key f a) (rank_key f b))"
  by (simp add: compareFn_def rank_key_def Let_def js_sub_Fin subtract_v_def)

lemma goes_after:
  "js_gt (SortCompare (compareFn f d) x y) (Fin 0) = out_of_order f d x y"
  using sign_of_difference [of "rank_key f y" "rank_key f x"]
    sign_of_difference [of "rank_key f x" "rank_key f y"]
  by (simp add: SortCompare_def compareFn_keys out_of_order_def)

lemma zero_difference:
  "is_zero (let v = js_sub x y in if v = NaN then Fin 0 else v) =
     (\<not> js_lt x y \<and> \<not> js_lt y x)"
  by (cases x; cases y) (auto simp: num_defs Let_def)

lemma tied_compare: "tied f a b = is_zero (SortCompare (compareFn f d) a b)"
  using zero_difference [of "rank_key f a" "rank_key f b"]
    zero_difference [of "rank_key f b" "rank_key f a"]
  by (auto simp: SortCompare_def compareFn_keys tied_def)

lemma js_lt_asym: "js_lt x y \<Longrightarrow> \<not> js_lt y x"
  by (cases x; cases y) (auto simp: num_defs)

lemma js_lt_negtrans:
  "y \<noteq> NaN \<Longrightarrow> \<not> js_lt x y \<Longrightarrow> \<not> js_lt y z \<Longrightarrow> \<not> js_lt x z"
  by (cases x; cases y; cases z) (auto simp: num_defs)

lemma out_of_order_asym: "out_of_order f d a b \<Longrightarrow> \<not> out_of_order f d b a"
  by (auto simp: out_of_order_def dest: js_lt_asym split: if_splits)

lemma out_of_order_negtrans:
  "rank_key f b \<noteq> NaN \<Longrightarrow> \<not> out_of_order f d a b \<Longrightarrow> \<not> out_of_order f d b c \<Longrightarrow>
   \<not> out_of_order f d a c"
  by (auto simp: out_of_order_def dest: js_lt_negtrans split: if_splits)

lemma tied_in_order:
  "rank_key f r \<noteq> NaN \<Longrightarrow> tied f r x \<Longrightarrow> tied f r y \<Longrightarrow> \<not> out_of_order f d x y"
  unfolding tied_def out_of_order_def
  by (cases "rank_key f r"; cases "rank_key f x"; cases "rank_key f y") (auto simp: num_defs)

subsection \<open>Insertion\<close>

lemma mset_insert_sorted: "mset (insert_sorted cmp x ys) = add_mset x (mset ys)"
  by (induction ys) auto

lemma mset_array_sort: "mset (array_sort cmp xs) = mset xs"
  by (induction xs) (auto simp: array_sort_def mset_insert_sorted)

lemma set_array_sort: "set (array_sort cmp xs) = set xs"
  using mset_array_sort [of cmp xs] by (metis set_mset_mset)

lemma array_sort_Cons:
  "array_sort cmp (x # xs) = insert_sorted cmp x (array_sort cmp xs)"
  by (simp add: array_sort_def)

lemma set_insert_sorted: "set (insert_sorted cmp x ys) = insert x (set ys)"
  using mset_insert_sorted [of cmp x ys] by (metis set_mset_add_mset_insert set_mset_mset)

lemma sorted_insert_sorted:
  assumes "\<forall>y \<in> set ys. rank_key f y \<noteq> NaN"
    and "sorted_wrt (\<lambda>a b. \<not> out_of_order f d a b) ys"
  shows "sorted_wrt (\<lambda>a b. \<not> out_of_order f d a b) (insert_sorted (compareFn f d) x ys)"
  using assms
proof (induction ys)
  case Nil
  show ?case by simp
next
  case (Cons y ys)
  show ?case
  proof (cases "out_of_order f d x y")
    case True
    then have "\<not> out_of_order f d y x" by (rule out_of_order_asym)
    with True Cons show ?thesis
      by (auto simp: goes_after set_insert_sorted)
  next
    case False
    have "\<not> out_of_order f d x z" if "z \<in> set ys" for z
      using that False Cons.prems out_of_order_negtrans [of f y d x z] by auto
    with False Cons.prems show ?thesis
      by (auto simp: goes_after)
  qed
qed

lemma sorted_array_sort:
  assumes "\<forall>y \<in> set xs. rank_key f y \<noteq> NaN"
  shows "sorted_wrt (\<lambda>a b. \<not> out_of_order f d a b) (array_sort (compareFn f d) xs)"
  using assms
proof (induction xs)
  case Nil
  show ?case by (simp add: array_sort_def)
next
  case (Cons x xs)
  then show ?case
    by (simp add: array_sort_Cons sorted_insert_sorted set_array_sort)
qed

lemma filter_insert_sorted:
  assumes "\<And>y. y \<in> set ys \<Longrightarrow> P x \<Longrightarrow> P y \<Longrightarrow> \<not> out_of_order f d x y"
  shows "filter P (insert_sorted (compareFn f d) x ys) = filter P (x # ys)"
  using assms
proof (induction ys)
  case Nil
  show ?case by simp
next
  case (Cons y ys)
  then have ih: "filter P (insert_sorted (compareFn f d) x ys) = filter P (x # ys)"
    by simp
  show ?case
  proof (cases "out_of_order f d x y")
    case True
    with Cons.prems [of y] have "\<not> (P x \<and> P y)" by auto
    with True ih show ?thesis by (auto simp: goes_after)
  next
    case False
    then show ?thesis by (simp add: goes_after)
  qed
qed

lemma stable_array_sort:
  assumes "rank_key f r \<noteq> NaN"
  shows "filter (tied f r) (array_sort (compareFn f d) xs) = filter (tied f r) xs"
proof (induction xs)
  case Nil
  show ?case by (simp add: array_sort_def)
next
  case (Cons x xs)
  have "filter (tied f r) (insert_sorted (compareFn f d) x (array_sort (compareFn f d) xs)) =
        filter (tied f r) (x # array_sort (compareFn f d) xs)"
    by (rule filter_insert_sorted) (use assms tied_in_order in blast)
  with Cons show ?case by (simp add: array_sort_Cons)
qed

lemma score_key_number: "rank_key PotentialScore r \<noteq> NaN"
  by (simp add: rank_key_def)

lemma example_scores:
  "value (analyzePotential scenarioA) = 15"
  "value (analyzePotential scenarioB) = 0"
  "value (analyzePotential top_scorer) = 17"
  "value (analyzePotential twin) = 15"
  by code_simp+

lemma market_cap_keys:
  "rank_key MarketCap scenarioA = Fin 5000000"
  "rank_key MarketCap scenarioB = Fin 80000000"
  "rank_key MarketCap top_scorer = Fin 5000000"
  by (simp_all add: rank_key_def example_defs)

lemma ranking_example:
  "sortData PotentialScore ''desc'' [scenarioB, scenarioA, top_scorer, twin] =
     [top_scorer, scenarioA, twin, scenarioB]"
  by (simp add: sortData_def array_sort_def compareFn_def SortCompare_def example_scores num_defs)

text \<open>
  Claim C5, as amended. \<open>sortData\<close> always returns a permutation of its input. When the
  sort field is the potential score, or no record's value of the sort field converts to NaN
  (as a missing field does), the result is sorted for the field and direction, and the sort
  is stable: the records tied with any record of the input keep their input order. In
  particular this holds for records of equal score ranked by score, descending. Here \<open>a\<close> is
  out of order before \<open>b\<close> when the comparator is positive on them, and they are tied when
  it is zero.
\<close>

theorem sortData_permutation_sorted_stable:
  "mset (sortData sortField sortDirection data) = mset data \<and>
   (\<forall>a b. out_of_order sortField sortDirection a b =
      js_gt (SortCompare (compareFn sortField sortDirection) a b) (Fin 0)) \<and>
   (\<forall>a b. tied sortField a b =
      is_zero (SortCompare (compareFn sortField sortDirection) a b)) \<and>
   (sortField = PotentialScore \<or> (\<forall>r \<in> set data. rank_key sortField r \<noteq> NaN) \<longrightarrow>
      sorted_wrt (\<lambda>a b. \<not> out_of_order sortField sortDirection a b)
        (sortData sortField sortDirection data) \<and>
      (\<forall>r \<in> set data. filter (tied sortField r) (sortData sortField sortDirection data) =
          filter (tied sortField r) data))"
proof (intro conjI impI)
  show "mset (sortData sortField sortDirection data) = mset data"
    by (simp add: sortData_def mset_array_sort)
  show "\<forall>a b. out_of_order sortField sortDirection a b =
      js_gt (SortCompare (compareFn sortField sortDirection) a b) (Fin 0)"
    by (simp add: goes_after)
  show "\<forall>a b. tied sortField a b =
      is_zero (SortCompare (compareFn sortField sortDirection) a b)"
    using tied_compare by blast
next
  assume "sortField = PotentialScore \<or> (\<forall>r \<in> set data. rank_key sortField r \<noteq> NaN)"
  then have k: "\<forall>r \<in> set data. rank_key sortField r \<noteq> NaN"
    using score_key_number by auto
  from k show "sorted_wrt (\<lambda>a b. \<not> out_of_order sortField sortDirection a b)
      (sortData sortField sortDirection data)"
    unfolding sortData_def by (rule sorted_array_sort)
  from k show "\<forall>r \<in> set data. filter (tied sortField r) (sortData sortField sortDirection data) =
      filter (tied sortField r) data"
    unfolding sortData_def using stable_array_sort by blast
qed

theorem sortData_permutation_sorted_stable_witness:
  "sortData MarketCap ''asc'' [scenarioB, scenarioA, top_scorer] =
     [scenarioA, top_scorer, scenarioB] \<and>
   sorted_wrt (\<lambda>a b. \<not> out_of_order MarketCap ''asc'' a b) [scenarioA, top_scorer, scenarioB] \<and>
   sortData PotentialScore ''desc'' [scenarioB, scenarioA, top_scorer, twin] =
     [top_scorer, scenarioA, twin, scenarioB] \<and>
   mset [top_scorer, scenarioA, twin, scenarioB] = mset [scenarioB, scenarioA, top_scorer, twin] \<and>
   tied PotentialScore scenarioA twin \<and>
   filter (tied PotentialScore scenarioA) [top_scorer, scenarioA, twin, scenarioB] =
     [scenarioA, twin] \<and>
   sorted_wrt (\<lambda>a b. \<not> out_of_order PotentialScore ''desc'' a b)
     [top_scorer, scenarioA, twin, scenarioB]"
proof -
  let ?data = "[scenarioB, scenarioA, top_scorer, twin]"
  let ?out = "[top_scorer, scenarioA, twin, scenarioB]"
  have r: "sortData PotentialScore ''desc'' ?data = ?out"
    by (rule ranking_example)
  have t: "filter (tied PotentialScore scenarioA) ?data = [scenarioA, twin]"
    and tw: "tied PotentialScore scenarioA twin"
    by (simp_all add: tied_def rank_key_def example_scores num_defs)
  have m: "scenarioA \<in> set ?data" by simp
  from sortData_permutation_sorted_stable [of PotentialScore "''desc''" ?data]
  have p: "mset ?out = mset ?data"
    and s: "sorted_wrt (\<lambda>a b. \<not> out_of_order PotentialScore ''desc'' a b) ?out"
    and f: "\<forall>x \<in> set ?data. filter (tied PotentialScore x) ?out = filter (tied PotentialScore x) ?data"
    unfolding r by blast+
  from f m have e: "filter (tied PotentialScore scenarioA) ?out = filter (tied PotentialScore scenarioA) ?data"
    by (rule bspec)
  from e t have "filter (tied PotentialScore scenarioA) ?out = [scenarioA, twin]"
    by (rule trans)
  moreover
  let ?caps = "[scenarioB, scenarioA, top_scorer]"
  have k: "\<forall>x \<in> set ?caps. rank_key MarketCap x \<noteq> NaN"
    by (simp add: market_cap_keys)
  have c: "sortData MarketCap ''asc'' ?caps = [scenarioA, top_scorer, scenarioB]"
    by (simp add: sortData_def array_sort_def goes_after out_of_order_def market_cap_keys
        js_lt_def)
  from k sortData_permutation_sorted_stable [of MarketCap "''asc''" ?caps]
  have "sorted_wrt (\<lambda>a b. \<not> out_of_order MarketCap ''asc'' a b)
      [scenarioA, top_scorer, scenarioB]"
    unfolding c by blast
  ultimately show ?thesis using r p tw s c by (intro conjI)
qed

lemma gappy_keys:
  "rank_key TotalSupply supply3 = Fin 3"
  "rank_key TotalSupply supply_missing = NaN"
  "rank_key TotalSupply supply1 = Fin 1"
  by (simp_all add: rank_key_def example_defs)

lemma gappy_unsorted:
  "\<not> sorted_wrt (\<lambda>a b. \<not> out_of_order TotalSupply ''asc'' a b) gappy"
  by (simp add: gappy_def out_of_order_def gappy_keys js_lt_def)

lemma gappy_sorted: "sortData TotalSupply ''asc'' gappy = gappy"
  by (simp add: gappy_def sortData_def array_sort_def goes_after out_of_order_def gappy_keys
      js_lt_def)

text \<open>
  Sorting \<open>gappy\<close> by \<^verbatim>\<open>total_supply\<close>, ascending: the record without the field compares
  equal to both others, so the list stays as it is, with supply 3 before supply 1. No result
  could do better: a stable result keeps the three records, all tied with the middle one, in
  input order.
\<close>

theorem sort_by_missing_field_counterexample:
  "sortData TotalSupply ''asc'' gappy = gappy \<and>
   \<not> sorted_wrt (\<lambda>a b. \<not> out_of_order TotalSupply ''asc'' a b) gappy \<and>
   \<not> (\<exists>out. sorted_wrt (\<lambda>a b. \<not> out_of_order TotalSupply ''asc'' a b) out \<and>
          (\<forall>r \<in> set gappy. filter (tied TotalSupply r) out = filter (tied TotalSupply r) gappy))"
proof -
  have "out = gappy"
    if f: "\<forall>r \<in> set gappy. filter (tied TotalSupply r) out = filter (tied TotalSupply r) gappy"
    for out
  proof -
    have "supply_missing \<in> set gappy" by (simp add: gappy_def)
    with f have "filter (tied TotalSupply supply_missing) out =
        filter (tied TotalSupply supply_missing) gappy"
      by blast
    moreover have "tied TotalSupply supply_missing x" for x
      by (simp add: tied_def gappy_keys js_lt_def)
    ultimately show ?thesis by simp
  qed
  with gappy_unsorted gappy_sorted show ?thesis by blast
qed

subsection \<open>The input array is left alone\<close>

lemma sortData_store_result:
  "sortData_store f d h data = (h @ [sortData f d (h ! data)], length h)"
  by (simp add: sortData_store_def spread_def sort_in_place_def sortData_def)

text \<open>
  Claim C6. \<open>sortData\<close> returns a new array and leaves its input unmodified: the result's
  reference is fresh, the input array and every other existing array hold the same records
  in the same order as before, and the new array holds the sorted records.
\<close>

theorem sortData_leaves_input:
  assumes "data < length h" and "sortData_store sortField sortDirection h data = (h', out)"
  shows "out \<noteq> data \<and> out = length h \<and> h' ! data = h ! data \<and> take (length h) h' = h \<and>
    h' ! out = sortData sortField sortDirection (h ! data)"
  using assms by (auto simp: sortData_store_result nth_append)

theorem sortData_leaves_input_witness:
  "sortData_store PotentialScore ''desc'' [[scenarioB, scenarioA]] 0 =
     ([[scenarioB, scenarioA], [scenarioA, scenarioB]], 1) \<and>
   [[scenarioB, scenarioA], [scenarioA, scenarioB]] ! 0 = [[scenarioB, scenarioA]] ! 0"
proof -
  have r: "sortData_store PotentialScore ''desc'' [[scenarioB, scenarioA]] 0 =
     ([[scenarioB, scenarioA], [scenarioA, scenarioB]], 1)"
    by (simp add: sortData_store_result sortData_def array_sort_def compareFn_def SortCompare_def
        example_scores num_defs)
  have "(0::nat) < length [[scenarioB, scenarioA]]" by simp
  from sortData_leaves_input [OF this r] r show ?thesis by simp
qed

subsection \<open>Repeated calls\<close>

lemma reachable_sort_state:
  "reachable st \<Longrightarrow> state_sortField st = PotentialScore \<and> state_sortDirection st = ''desc''"
proof (induction rule: reachable.induct)
  case start
  show ?case by (simp add: initial_def)
next
  case (step st st')
  from step.hyps(2) step.IH show ?case
    by (cases rule: fetch_step.cases) simp_all
qed

text \<open>
  Claim C9. \<open>analyzePotential\<close>, \<open>generateAnalysis\<close> and the filter's predicate read nothing
  but their argument; \<open>sortData\<close> also reads the component's \<^verbatim>\<open>sortField\<close> and
  \<^verbatim>\<open>sortDirection\<close>. No reachable state of the component differs from the initial one in
  these two, so two calls of \<open>sortData\<close>, made in any two reachable states and any two
  stores on arrays that hold the same records, return arrays that hold the same records: the
  ranking by score, descending. A second call on the same array, made in the store the first
  call left behind and in any later state, returns the records of the first, whose result
  and input are untouched. The same holds of the filter, which reads no state at all.
\<close>

theorem repeated_calls_agree:
  assumes "reachable st" and "reachable st'"
    and "data < length h" and "data' < length h'" and "h' ! data' = h ! data"
  shows
    "state_sortField st' = state_sortField st \<and>
     state_sortDirection st' = state_sortDirection st \<and>
     (let (h1, out) = sortData_in st h data; (h2, out') = sortData_in st' h' data'
      in h2 ! out' = h1 ! out \<and> h1 ! out = sortData PotentialScore ''desc'' (h ! data)) \<and>
     (let (h1, out) = sortData_in st h data; (h2, out') = sortData_in st' h1 data
      in h2 ! out' = h1 ! out \<and> h2 ! out = h1 ! out \<and> h2 ! data = h ! data) \<and>
     (let (h1, out) = potentialGems_store h data; (h2, out') = potentialGems_store h' data'
      in h2 ! out' = h1 ! out) \<and>
     (let (h1, out) = potentialGems_store h data; (h2, out') = potentialGems_store h1 data
      in h2 ! out' = h1 ! out \<and> h2 ! out = h1 ! out \<and> h2 ! data = h ! data)"
  using assms reachable_sort_state [of st] reachable_sort_state [of st']
  by (simp add: sortData_in_def sortData_store_result potentialGems_store_result nth_append)

lemma sorted_pair:
  "sortData PotentialScore ''desc'' [scenarioB, scenarioA] = [scenarioA, scenarioB]"
  by (simp add: sortData_def array_sort_def compareFn_def SortCompare_def example_scores num_defs)

theorem repeated_calls_agree_witness:
  "reachable initial \<and>
   reachable (initial\<lparr>cryptoData := potentialGems [scenarioB, scenarioA], loading := False\<rparr>) \<and>
   sortData_in initial [[scenarioB, scenarioA]] 0 =
     ([[scenarioB, scenarioA], [scenarioA, scenarioB]], 1) \<and>
   sortData_in (initial\<lparr>cryptoData := potentialGems [scenarioB, scenarioA], loading := False\<rparr>)
       [[scenarioB, scenarioA], [scenarioA, scenarioB]] 0 =
     ([[scenarioB, scenarioA], [scenarioA, scenarioB], [scenarioA, scenarioB]], 2) \<and>
   (let (h1, out) = sortData_in initial [[scenarioB, scenarioA]] 0;
        (h2, out') =
          sortData_in
            (initial\<lparr>cryptoData := potentialGems [scenarioB, scenarioA], loading := False\<rparr>) h1 0
    in h2 ! out' = h1 ! out \<and> h2 ! out = h1 ! out \<and> h2 ! 0 = [[scenarioB, scenarioA]] ! 0)"
proof -
  let ?data = "[scenarioB, scenarioA]"
  let ?st = "initial\<lparr>cryptoData := potentialGems ?data, loading := False\<rparr>"
  have a: "reachable initial" by (rule reachable.start)
  have "fetch_step initial ?st" by (rule fetch_step.fetched)
  with a have b: "reachable ?st" by (rule reachable.step)
  have l: "(0::nat) < length [?data]" by simp
  have e: "[?data] ! 0 = [?data] ! 0" by simp
  have s: "state_sortField initial = PotentialScore" "state_sortDirection initial = ''desc''"
    "state_sortField ?st = PotentialScore" "state_sortDirection ?st = ''desc''"
    by (simp_all add: initial_def)
  from repeated_calls_agree [OF a b l l e]
  have "let (h1, out) = sortData_in initial [?data] 0; (h2, out') = sortData_in ?st h1 0
    in h2 ! out' = h1 ! out \<and> h2 ! out = h1 ! out \<and> h2 ! 0 = [?data] ! 0"
    by blast
  moreover have "sortData_in initial [?data] 0 = ([?data, [scenarioA, scenarioB]], 1)"
    by (simp add: sortData_in_def s sortData_store_result sorted_pair)
  moreover have "sortData_in ?st [?data, [scenarioA, scenarioB]] 0 =
      ([?data, [scenarioA, scenarioB], [scenarioA, scenarioB]], 2)"
    by (simp add: sortData_in_def s sortData_store_result sorted_pair)
  ultimately show ?thesis using a b by (intro conjI)
qed

section \<open>Properties of the narrative generator\<close>

lemma narrative_scenarioA:
  "generateAnalysis Number_toFixed scenarioA = Inr ''Gem shows promise with a market cap of only $5.00M. It has strong trading volume at 60.0% of its market cap. Price is up 20.0% in the last 24h. Only 20.0% of total supply is in circulation. ''"
  by code_simp

lemma narrative_unissued:
  "generateAnalysis Number_toFixed unissued = Inr ''Gem shows promise with a market cap of only $5.00M. It has strong trading volume at 60.0% of its market cap. Price is up 20.0% in the last 24h. ''"
  by code_simp

lemma narrative_spec_unissued:
  "narrate_spec Number_toFixed unissued = ''Gem shows promise with a market cap of only $5.00M. It has strong trading volume at 60.0% of its market cap. Price is up 20.0% in the last 24h. Only 0.0% of total supply is in circulation.''"
  by code_simp

lemma percentage_needs_supplies: "percentage_truthy r \<Longrightarrow> supply_truthy r \<and> both_present r"
proof -
  assume p: "percentage_truthy r"
  have "ToBoolean (circulating_supply r)"
    if "ToBoolean (total_supply r)"
      "ToBoolean (Num (js_mul (divide_v (circulating_supply r) (total_supply r)) (Fin 100)))"
    using that
    by (cases "total_supply r"; cases "circulating_supply r")
      (auto simp: divide_v_def js_div_def js_mul_def is_zero_def is_inf_def signed_zero_def
        signed_inf_def split: if_splits)
  with p have "supply_truthy r"
    by (auto simp: percentage_truthy_def supply_truthy_def supply_ratio_def)
  moreover have "supply_truthy r \<Longrightarrow> both_present r"
    by (cases "total_supply r"; cases "circulating_supply r")
      (auto simp: supply_truthy_def both_present_def present_def)
  ultimately show ?thesis by blast
qed

lemma truthy_from: "pow2 k \<le> q \<Longrightarrow> - 1022 \<le> k \<Longrightarrow> ToBoolean (Num (double_of q))"
  using double_of_lower [of k q] pow2_pos [of k] by (auto simp: is_zero_def)

lemma percentage_of_normal_ratio:
  assumes "total_supply r = Num (Fin a)" and "circulating_supply r = Num (Fin b)"
    and "0 < a" and "0 < b" and "pow2 (- 1022) \<le> b / a"
  shows "percentage_truthy r"
proof -
  have ratio: "supply_ratio r = double_of (b / a)"
    using assms(1-4) by (simp add: supply_ratio_def divide_v_def js_div_def is_zero_def is_inf_def)
  from double_of_lower [OF assms(5)]
  consider "double_of (b / a) = PInf" | v where "double_of (b / a) = Fin v" "pow2 (- 1022) \<le> v"
    by auto
  then have "ToBoolean (Num (js_mul (supply_ratio r) (Fin 100)))"
  proof cases
    case 1
    then show ?thesis by (simp add: ratio js_mul_def is_inf_def is_zero_def signed_inf_def)
  next
    case 2
    from 2(2) pow2_pos [of "- 1022"] have v: "0 < v" by linarith
    then have "v \<le> v * 100" by simp
    with 2(2) have "pow2 (- 1022) \<le> v * 100" by linarith
    then have "ToBoolean (Num (double_of (v * 100)))" by (rule truthy_from) simp
    with v show ?thesis by (simp add: ratio 2(1) js_mul_def is_inf_def is_zero_def)
  qed
  with assms(1,3) show ?thesis by (simp add: percentage_truthy_def is_zero_def)
qed

lemma percentage_of_tiny_ratio:
  assumes "total_supply r = Num (Fin a)" and "circulating_supply r = Num (Fin b)"
    and "0 < a" and "0 < b" and "b / a \<le> pow2 (- 1075)"
  shows "\<not> percentage_truthy r"
proof -
  from assms(3,4) have "0 < b / a" by simp
  from double_of_underflow [OF this assms(5)] have "supply_ratio r = Fin 0"
    using assms(1-4) by (simp add: supply_ratio_def divide_v_def js_div_def is_zero_def is_inf_def)
  then show ?thesis
    by (simp add: percentage_truthy_def js_mul_def is_inf_def is_zero_def signed_zero_def)
qed

text \<open>
  Claim C7, as amended. For every record whose \<^verbatim>\<open>price_change_percentage_24h\<close> is not the
  boolean \<^verbatim>\<open>true\<close> (on which \<^verbatim>\<open>toFixed\<close> raises a TypeError), \<open>generateAnalysis\<close> returns
  one sentence: clause 1 always, clause 2 exactly when the volume ratio exceeds 0.3, clause 3
  exactly when the price change exceeds 0, and clause 4 exactly when \<^verbatim>\<open>total_supply\<close> is
  truthy and the circulating percentage, as the division and the multiplication round it, is
  neither zero nor NaN. That needs both supply fields truthy, hence present. For positive
  finite supplies it holds when the exact quotient is at least \<open>2^(- 1022)\<close>, and fails when
  the quotient is at most \<open>2^(- 1075)\<close>, which rounds to zero. Each clause is followed by a
  single space. All this holds for any printer of numbers put for \<^verbatim>\<open>toFixed\<close>.
\<close>

theorem generateAnalysis_clauses:
  "generateAnalysis toFixed r =
     (if price_change_percentage_24h r = Bool True then Inl TypeError
      else Inr (concat (map (\<lambda>c. c @ '' '') (clauses percentage_truthy toFixed r)))) \<and>
   (percentage_truthy r \<longrightarrow> supply_truthy r \<and> both_present r) \<and>
   (total_supply r = Num (Fin a) \<and> circulating_supply r = Num (Fin b) \<and> 0 < a \<and> 0 < b \<longrightarrow>
      (pow2 (- 1022) \<le> b / a \<longrightarrow> percentage_truthy r) \<and>
      (b / a \<le> pow2 (- 1075) \<longrightarrow> \<not> percentage_truthy r))"
proof (intro conjI)
  show "generateAnalysis toFixed r =
     (if price_change_percentage_24h r = Bool True then Inl TypeError
      else Inr (concat (map (\<lambda>c. c @ '' '') (clauses percentage_truthy toFixed r))))"
  proof (cases "price_change_percentage_24h r")
    case (Bool t)
    then show ?thesis
      by (cases t)
        (simp_all add: generateAnalysis_def clauses_def clause1_def clause2_def clause4_def
          percentage_truthy_def millions_def volume_ratio_def supply_ratio_def Let_def
          greater_v_def js_gt_def js_lt_def)
  next
    case (Num n)
    then show ?thesis
      by (simp add: generateAnalysis_def clauses_def clause1_def clause2_def clause3_def
          clause4_def percentage_truthy_def millions_def volume_ratio_def supply_ratio_def
          Let_def)
  qed (simp_all add: generateAnalysis_def clauses_def clause1_def clause2_def clause4_def
          percentage_truthy_def millions_def volume_ratio_def supply_ratio_def Let_def
          greater_v_def js_gt_def js_lt_def)
  show "percentage_truthy r \<longrightarrow> supply_truthy r \<and> both_present r"
    using percentage_needs_supplies [of r] by blast
  show "total_supply r = Num (Fin a) \<and> circulating_supply r = Num (Fin b) \<and> 0 < a \<and> 0 < b \<longrightarrow>
      (pow2 (- 1022) \<le> b / a \<longrightarrow> percentage_truthy r) \<and>
      (b / a \<le> pow2 (- 1075) \<longrightarrow> \<not> percentage_truthy r)"
    using percentage_of_normal_ratio [of r a b] percentage_of_tiny_ratio [of r a b] by blast
qed

text \<open>
  On Scenario A (20 of 100 in circulation) the fourth clause is present. On \<open>dust\<close> both
  supplies are truthy and the quotient \<open>2^(- 1200)\<close> rounds to zero: the clause is absent.
\<close>

lemma dust_supplies:
  "total_supply dust = Num (Fin (2 ^ 600))" "circulating_supply dust = Num (Fin (1 / 2 ^ 600))"
  "supply_truthy dust" "both_present dust"
  by (simp_all add: dust_def scenarioA_def supply_truthy_def both_present_def present_def
      is_zero_def del: power_numeral)

lemma dust_ratio: "(1 / 2 ^ 600) / 2 ^ 600 \<le> pow2 (- 1075)"
proof -
  have e: "(1 / 2 ^ 600) / 2 ^ 600 = pow2 (- 1200)"
    by (simp add: pow2_def power_add [symmetric] del: power_numeral)
  show ?thesis unfolding e by (simp add: pow2_le_iff)
qed

theorem generateAnalysis_clauses_witness:
  "price_change_percentage_24h scenarioA \<noteq> Bool True \<and>
   generateAnalysis Number_toFixed scenarioA =
     Inr (concat (map (\<lambda>c. c @ '' '') (clauses percentage_truthy Number_toFixed scenarioA))) \<and>
   generateAnalysis Number_toFixed (scenarioA\<lparr>price_change_percentage_24h := Bool True\<rparr>) =
     Inl TypeError \<and>
   total_supply scenarioA = Num (Fin 100) \<and> circulating_supply scenarioA = Num (Fin 20) \<and>
   pow2 (- 1022) \<le> 20 / 100 \<and>
   percentage_truthy scenarioA \<and> supply_truthy scenarioA \<and> both_present scenarioA \<and>
   total_supply dust = Num (Fin (2 ^ 600)) \<and> circulating_supply dust = Num (Fin (1 / 2 ^ 600)) \<and>
   (1 / 2 ^ 600) / 2 ^ 600 \<le> pow2 (- 1075) \<and>
   supply_truthy dust \<and> both_present dust \<and> \<not> percentage_truthy dust"
proof -
  note a = generateAnalysis_clauses [of Number_toFixed scenarioA 100 20]
  note t = generateAnalysis_clauses
    [of Number_toFixed "scenarioA\<lparr>price_change_percentage_24h := Bool True\<rparr>" 100 20]
  note d = generateAnalysis_clauses [of Number_toFixed dust "2 ^ 600" "1 / 2 ^ 600"]
  have p: "price_change_percentage_24h scenarioA \<noteq> Bool True"
    and s: "total_supply scenarioA = Num (Fin 100)" "circulating_supply scenarioA = Num (Fin 20)"
    by (simp_all add: example_defs)
  have n: "pow2 (- 1022) \<le> 20 / 100"
  proof -
    have "pow2 (- 1022) \<le> pow2 (- 3)" by (simp add: pow2_le_iff)
    also have "\<dots> \<le> 20 / 100" by (simp add: pow2_def)
    finally show ?thesis .
  qed
  from a p have 1: "generateAnalysis Number_toFixed scenarioA =
     Inr (concat (map (\<lambda>c. c @ '' '') (clauses percentage_truthy Number_toFixed scenarioA)))"
    by simp
  from t have 2: "generateAnalysis Number_toFixed
      (scenarioA\<lparr>price_change_percentage_24h := Bool True\<rparr>) = Inl TypeError"
    by simp
  from a s n have 3: "percentage_truthy scenarioA" by simp
  with a have 4: "supply_truthy scenarioA" "both_present scenarioA" by blast+
  have "(0::rat) < 2 ^ 600" "(0::rat) < 1 / 2 ^ 600" by simp_all
  with d dust_supplies(1,2) dust_ratio have 5: "\<not> percentage_truthy dust" by blast
  from p 1 2 s n 3 4 dust_supplies dust_ratio 5 show ?thesis by (intro conjI)
qed

text \<open>
  On \<open>unissued\<close> both supply fields are present (100 and 0), so the claim as stated promises
  clause 4; the source computes the percentage 0, reads it as false and omits the clause.
  The sentence also ends with a space, which joining with single spaces would not give.
\<close>

theorem narrate_spec_counterexample:
  "both_present unissued \<and>
   generateAnalysis Number_toFixed unissued = Inr ''Gem shows promise with a market cap of only $5.00M. It has strong trading volume at 60.0% of its market cap. Price is up 20.0% in the last 24h. '' \<and>
   narrate_spec Number_toFixed unissued = ''Gem shows promise with a market cap of only $5.00M. It has strong trading volume at 60.0% of its market cap. Price is up 20.0% in the last 24h. Only 0.0% of total supply is in circulation.''"
proof -
  have "both_present unissued"
    by (simp add: both_present_def present_def example_defs)
  with narrative_unissued narrative_spec_unissued show ?thesis by (intro conjI)
qed

text \<open>
  The printer at work: 1005000 / 1000000 is the double below 1.005 and prints as 1.00; from
  \<open>10^21\<close> on the exponent form is printed.
\<close>

lemma Number_toFixed_examples:
  "Number_toFixed 2 (js_div (Fin 1005000) (Fin 1000000)) = ''1.00''"
  "Number_toFixed 2 (js_div (Fin (10 ^ 27)) (Fin 1000000)) = ''1e+21''"
  "Number_toFixed 1 (Fin (5 / 2)) = ''2.5''"
  "Number_toFixed 0 (Fin (5 / 2)) = ''3''"
  "Number_toFixed 2 NZero = ''0.00''"
  "Number_toFixed 2 (Fin (- 1 / 1000)) = ''-0.00''"
  "Number_toFixed 1 NaN = ''NaN''"
  "Number_toFixed 1 PInf = ''Infinity''"
  by code_simp+

end
